theory Spec2Isabelle
  imports Complex_Main
begin

section \<open>RC plane designer: the batch calculator and the interactive designer\<close>

text \<open>
  The repository holds two programs: \<^verbatim>\<open>test.py\<close>, a batch calculator that reads a JSON
  configuration, and \<^verbatim>\<open>plane_designer.py\<close>, an interactive designer that prompts for
  every number. Both apply closed-form formulas once, in a fixed order.

  The programs are modelled twice. In the first model Python floats are real numbers, so
  a statement about it is one of exact real arithmetic; rounding, overflow and the textual
  formatting of the reports are outside it. The first model keeps the control flow of
  Python: a division by zero raises \<^verbatim>\<open>ZeroDivisionError\<close>, \<^verbatim>\<open>math.sqrt\<close> of a
  negative number raises \<^verbatim>\<open>ValueError\<close>, \<^verbatim>\<open>input()\<close> at the end of the input
  raises \<^verbatim>\<open>EOFError\<close>, and an exception ends the computation that raised it.

  The second model, further down, covers the wing, tail and stabilizer geometry only and
  runs it in binary64, the arithmetic of a Python float: every operation rounds to the
  nearest representable number, a result too large becomes an infinity, and
  \<^verbatim>\<open>x ** 2\<close> raises \<^verbatim>\<open>OverflowError\<close>. It is there for the statements that compare
  two differently computed numbers, which rounding can separate.
\<close>

subsection \<open>Exceptions and the arithmetic that raises them\<close>

datatype py_error = ZeroDivisionError | ValueError | EOFError | OverflowError

text \<open>Sequencing: the first exception raised is the result.\<close>

definition bindE :: "py_error + 'a \<Rightarrow> ('a \<Rightarrow> py_error + 'b) \<Rightarrow> py_error + 'b" where
  "bindE m f = (case m of Inl e \<Rightarrow> Inl e | Inr x \<Rightarrow> f x)"

text \<open>Python's \<^verbatim>\<open>a / b\<close> on numbers.\<close>

definition py_div :: "real \<Rightarrow> real \<Rightarrow> py_error + real" where
  "py_div a b = (if b = 0 then Inl ZeroDivisionError else Inr (a / b))"

text \<open>\<^verbatim>\<open>math.sqrt\<close>: a negative argument is a domain error.\<close>

definition math_sqrt :: "real \<Rightarrow> py_error + real" where
  "math_sqrt x = (if x < 0 then Inl ValueError else Inr (sqrt x))"

text \<open>
  \<^verbatim>\<open>np.sqrt\<close> raises nothing: on a negative argument it returns the value
  \<^verbatim>\<open>nan\<close>.
\<close>

datatype np_float = Finite real | NaN

definition np_sqrt :: "real \<Rightarrow> np_float" where
  "np_sqrt x = (if x < 0 then NaN else Finite (sqrt x))"

subsection \<open>The batch calculator (\<^verbatim>\<open>test.py\<close>)\<close>

subsubsection \<open>Configuration with defaults\<close>

text \<open>A value of a parsed JSON document.\<close>

datatype json =
    JNull
  | JBool bool
  | JInt int
  | JFloat real
  | JStr string
  | JArr "json list"
  | JObj "(string \<times> json) list"

text \<open>The table \<^verbatim>\<open>DEFAULTS\<close>, in the order the source lists it.\<close>

definition DEFAULTS :: "(string \<times> json) list" where
  "DEFAULTS =
    [(''weight'', JFloat 2.0),
     (''cl_max'', JFloat 1.4),
     (''taper_ratio'', JFloat 1.0),
     (''tail_taper_H'', JFloat 1.0),
     (''tail_taper_V'', JFloat 1.0),
     (''motor_kv'', JInt 1200),
     (''battery_voltage'', JFloat 11.1),
     (''propeller'', JStr ''9x4.5'')]"

text \<open>
  \<^verbatim>\<open>load_input\<close>, from the dictionary that \<^verbatim>\<open>json.load\<close> returned (opening and
  parsing the file are not modelled). The loop runs over the entries of the table and
  stores a default only under a key the dictionary does not have.
\<close>

definition load_input :: "(string \<rightharpoonup> json) \<Rightarrow> (string \<rightharpoonup> json)" where
  "load_input data =
     fold (\<lambda>(key, val) data. if data key = None then data(key \<mapsto> val) else data)
       DEFAULTS data"

subsubsection \<open>Geometry, aerodynamics, stability\<close>

text \<open>\<^verbatim>\<open>calc_wing_geometry(b, AR, taper_ratio)\<close> returns \<^verbatim>\<open>S, MAC, C_root, C_tip\<close>.\<close>

definition calc_wing_geometry ::
  "real \<Rightarrow> real \<Rightarrow> real \<Rightarrow> py_error + (real \<times> real \<times> real \<times> real)" where
  "calc_wing_geometry b AR taper_ratio =
     bindE (py_div (b\<^sup>2) AR) (\<lambda>S.
     bindE (py_div S b) (\<lambda>MAC.
     bindE (py_div (2 * S) (b * (1 + taper_ratio))) (\<lambda>C_root.
     let C_tip = taper_ratio * C_root in
     Inr (S, MAC, C_root, C_tip))))"

text \<open>\<^verbatim>\<open>calc_tail_geometry(S_tail, span_tail, taper_ratio)\<close> returns \<^verbatim>\<open>C_root, C_tip\<close>.\<close>

definition calc_tail_geometry :: "real \<Rightarrow> real \<Rightarrow> real \<Rightarrow> py_error + (real \<times> real)" where
  "calc_tail_geometry S_tail span_tail taper_ratio =
     bindE (py_div (2 * S_tail) (span_tail * (1 + taper_ratio))) (\<lambda>C_root.
     let C_tip = taper_ratio * C_root in
     Inr (C_root, C_tip))"

text \<open>\<^verbatim>\<open>calc_aerodynamics(rho, V, S, CL, CD0, AR, e)\<close> returns \<^verbatim>\<open>L, D, CD\<close>.\<close>

definition calc_aerodynamics ::
  "real \<Rightarrow> real \<Rightarrow> real \<Rightarrow> real \<Rightarrow> real \<Rightarrow> real \<Rightarrow> real \<Rightarrow> py_error + (real \<times> real \<times> real)" where
  "calc_aerodynamics rho V S CL CD0 AR e =
     (let L = 0.5 * rho * V\<^sup>2 * S * CL in
      bindE (py_div (CL\<^sup>2) (pi * e * AR)) (\<lambda>q.
      let CD = CD0 + q;
          D = 0.5 * rho * V\<^sup>2 * S * CD in
      Inr (L, D, CD)))"

text \<open>\<^verbatim>\<open>stall_speed(W, rho, S, CLmax)\<close>; the body does not mention \<^verbatim>\<open>CLmax\<close>.\<close>

definition stall_speed :: "real \<Rightarrow> real \<Rightarrow> real \<Rightarrow> real \<Rightarrow> py_error + np_float" where
  "stall_speed W rho S CLmax =
     bindE (py_div (2 * W) (rho * S)) (\<lambda>q. Inr (np_sqrt q))"

text \<open>\<^verbatim>\<open>stability(MAC, x_cg, x_np)\<close> returns \<^verbatim>\<open>SM, x_ac\<close>.\<close>

definition stability :: "real \<Rightarrow> real \<Rightarrow> real \<Rightarrow> py_error + (real \<times> real)" where
  "stability MAC x_cg x_np =
     bindE (py_div (x_np - x_cg) MAC) (\<lambda>SM.
     let x_ac = 0.25 * MAC in
     Inr (SM, x_ac))"

text \<open>\<^verbatim>\<open>tail_areas(S)\<close> returns \<^verbatim>\<open>SH, SV\<close>.\<close>

definition tail_areas :: "real \<Rightarrow> real \<times> real" where
  "tail_areas S = (let SH = 0.19 * S; SV = 0.095 * S in (SH, SV))"

text \<open>\<^verbatim>\<open>fuselage_dimensions(b)\<close> returns \<^verbatim>\<open>Lf, Hf, Wf\<close>.\<close>

definition fuselage_dimensions :: "real \<Rightarrow> real \<times> real \<times> real" where
  "fuselage_dimensions b =
     (let Lf = 0.675 * b; Hf = 0.125 * Lf; Wf = 0.2 * Hf in (Lf, Hf, Wf))"

text \<open>
  \<^verbatim>\<open>main\<close> of the batch calculator, from the lookups in \<^verbatim>\<open>data\<close> (line 168) to
  the call of \<^verbatim>\<open>stability\<close> (line 198). The entries of \<^verbatim>\<open>data\<close> that the
  computation reads are taken as numbers, so a missing \<^verbatim>\<open>wingspan\<close> or
  \<^verbatim>\<open>aspect_ratio\<close> and an entry that is not a number are outside the model. The result
  holds the local variables in metres, newtons and metres per second; the conversion to
  millimetres, \<^verbatim>\<open>round\<close> and the exports that follow are not modelled.
\<close>

record config =
  cfg_wingspan :: real
  cfg_aspect_ratio :: real
  cfg_weight :: real
  cfg_cl_max :: real
  cfg_taper_ratio :: real
  cfg_tail_taper_H :: real
  cfg_tail_taper_V :: real

record design =
  m_b :: real
  m_S :: real
  m_MAC :: real
  m_C_root :: real
  m_C_tip :: real
  m_SH :: real
  m_SV :: real
  m_Lf :: real
  m_Hf :: real
  m_Wf :: real
  m_b_H :: real
  m_b_V :: real
  m_C_root_H :: real
  m_C_tip_H :: real
  m_C_root_V :: real
  m_C_tip_V :: real
  m_L :: real
  m_D :: real
  m_CD :: real
  m_Vstall :: np_float
  m_x_cg :: real
  m_x_np :: real
  m_SM :: real
  m_x_ac :: real

definition test_main :: "config \<Rightarrow> py_error + design" where
  "test_main data =
     (let b = cfg_wingspan data / 1000;
          AR = cfg_aspect_ratio data;
          W = cfg_weight data * 9.81;
          CLmax = cfg_cl_max data;
          taper = cfg_taper_ratio data in
      bindE (calc_wing_geometry b AR taper) (\<lambda>(S, MAC, C_root, C_tip).
      let (SH, SV) = tail_areas S;
          (Lf, Hf, Wf) = fuselage_dimensions b;
          b_H = 0.4 * b;
          b_V = Hf in
      bindE (calc_tail_geometry SH b_H (cfg_tail_taper_H data)) (\<lambda>(C_root_H, C_tip_H).
      bindE (calc_tail_geometry SV b_V (cfg_tail_taper_V data)) (\<lambda>(C_root_V, C_tip_V).
      let rho = 1.225;
          V = 10;
          CD0 = 0.02;
          e = 0.8 in
      bindE (calc_aerodynamics rho V S CLmax CD0 AR e) (\<lambda>(L, D, CD).
      bindE (stall_speed W rho S CLmax) (\<lambda>Vstall.
      let x_cg = 0.3 * MAC;
          x_np = 0.4 * MAC in
      bindE (stability MAC x_cg x_np) (\<lambda>(SM, x_ac).
      Inr \<lparr>m_b = b, m_S = S, m_MAC = MAC, m_C_root = C_root, m_C_tip = C_tip,
           m_SH = SH, m_SV = SV, m_Lf = Lf, m_Hf = Hf, m_Wf = Wf,
           m_b_H = b_H, m_b_V = b_V,
           m_C_root_H = C_root_H, m_C_tip_H = C_tip_H,
           m_C_root_V = C_root_V, m_C_tip_V = C_tip_V,
           m_L = L, m_D = D, m_CD = CD, m_Vstall = Vstall,
           m_x_cg = x_cg, m_x_np = x_np, m_SM = SM, m_x_ac = x_ac\<rparr>)))))))"

subsection \<open>The interactive designer (\<^verbatim>\<open>plane_designer.py\<close>)\<close>

text \<open>
  The designer reads its numbers from the terminal. The input is the list of the lines
  still to be read; a line is kept as what \<^verbatim>\<open>float(raw)\<close> makes of it after
  \<^verbatim>\<open>strip()\<close>: the empty string, a number, or text that \<^verbatim>\<open>float\<close> rejects with
  \<^verbatim>\<open>ValueError\<close>. (The spellings \<^verbatim>\<open>inf\<close> and \<^verbatim>\<open>nan\<close>, which \<^verbatim>\<open>float\<close> accepts,
  have no counterpart among the reals and are not modelled.) Every function that reads
  returns the lines it left. What is printed is not modelled.
\<close>

datatype line = Blank | Numeric real | Other

text \<open>
  \<^verbatim>\<open>get_float(prompt, min_val, max_val, default)\<close>: the loop asks again after a line that
  is not a number (an empty line counts as the default, when there is one) and after a
  number outside the bounds; it returns the first number that passes.
\<close>

fun get_float ::
  "real option \<Rightarrow> real option \<Rightarrow> real option \<Rightarrow> line list \<Rightarrow> py_error + (real \<times> line list)" where
  "get_float min_val max_val dflt [] = Inl EOFError"
| "get_float min_val max_val dflt (raw # inp) =
     (case (case raw of Blank \<Rightarrow> dflt | Numeric x \<Rightarrow> Some x | Other \<Rightarrow> None) of
        None \<Rightarrow> get_float min_val max_val dflt inp
      | Some val \<Rightarrow>
          if (case min_val of None \<Rightarrow> False | Some lo \<Rightarrow> val < lo)
             \<or> (case max_val of None \<Rightarrow> False | Some hi \<Rightarrow> val > hi)
          then get_float min_val max_val dflt inp
          else Inr (val, inp))"

record wing =
  wing_span :: real
  wing_AR :: real
  wing_taper_ratio :: real
  wing_area :: real
  wing_MAC :: real
  wing_c_root :: real
  wing_c_tip :: real

definition design_wing :: "line list \<Rightarrow> py_error + (wing \<times> line list)" where
  "design_wing inp0 =
     bindE (get_float None None None inp0) (\<lambda>(span, inp1).
     bindE (get_float None None None inp1) (\<lambda>(AR, inp2).
     bindE (get_float None None None inp2) (\<lambda>(taper, inp3).
     bindE (py_div (span\<^sup>2) AR) (\<lambda>area.
     bindE (py_div (2 * area) (span * (1 + taper))) (\<lambda>c_root.
     let c_tip = taper * c_root in
     bindE (py_div (4.0 * area) (3.0 * span)) (\<lambda>m1.
     bindE (py_div (1 + taper + taper\<^sup>2) ((1 + taper)\<^sup>2)) (\<lambda>m2.
     let MAC = m1 * m2 in
     Inr (\<lparr>wing_span = span, wing_AR = AR, wing_taper_ratio = taper,
           wing_area = area, wing_MAC = MAC, wing_c_root = c_root, wing_c_tip = c_tip\<rparr>,
          inp3))))))))"

record hs =
  hs_S :: real
  hs_span :: real
  hs_root :: real
  hs_tip :: real
  hs_Elevator :: real
  hs_percent_hs :: real
  hs_percent_elev :: real

record vs =
  vs_S :: real
  vs_span :: real
  vs_root :: real
  vs_tip :: real
  vs_Rudder :: real
  vs_percent_vs :: real
  vs_percent_rudder :: real

record empennage =
  emp_HS :: hs
  emp_VS :: vs

definition design_empennage :: "real \<Rightarrow> line list \<Rightarrow> py_error + (empennage \<times> line list)" where
  "design_empennage area inp0 =
     bindE (get_float (Some 18.0) (Some 20.0) None inp0) (\<lambda>(percent_hs, inp1).
     let S_hs = (percent_hs / 100.0) * area in
     bindE (get_float (Some 1.0) (Some 20.0) None inp1) (\<lambda>(AR_hs, inp2).
     bindE (get_float (Some 0.05) (Some 1.5) None inp2) (\<lambda>(taper_hs, inp3).
     bindE (math_sqrt (AR_hs * S_hs)) (\<lambda>b_hs.
     bindE (py_div (2 * S_hs) (b_hs * (1 + taper_hs))) (\<lambda>c_root_hs.
     let c_tip_hs = taper_hs * c_root_hs in
     bindE (get_float (Some 25.0) (Some 50.0) None inp3) (\<lambda>(percent_elev, inp4).
     let S_elev = (percent_elev / 100.0) * S_hs in
     bindE (get_float (Some 9.0) (Some 10.0) None inp4) (\<lambda>(percent_vs, inp5).
     let S_vs = (percent_vs / 100.0) * area in
     bindE (get_float (Some 1.0) (Some 10.0) None inp5) (\<lambda>(AR_vs, inp6).
     bindE (get_float (Some 0.05) (Some 1.5) None inp6) (\<lambda>(taper_vs, inp7).
     bindE (math_sqrt (AR_vs * S_vs)) (\<lambda>b_vs.
     bindE (py_div (2 * S_vs) (b_vs * (1 + taper_vs))) (\<lambda>c_root_vs.
     let c_tip_vs = taper_vs * c_root_vs in
     bindE (get_float (Some 25.0) (Some 50.0) None inp7) (\<lambda>(percent_rudder, inp8).
     let S_rudder = (percent_rudder / 100.0) * S_vs in
     Inr (\<lparr>emp_HS = \<lparr>hs_S = S_hs, hs_span = b_hs, hs_root = c_root_hs, hs_tip = c_tip_hs,
                      hs_Elevator = S_elev, hs_percent_hs = percent_hs,
                      hs_percent_elev = percent_elev\<rparr>,
           emp_VS = \<lparr>vs_S = S_vs, vs_span = b_vs, vs_root = c_root_vs, vs_tip = c_tip_vs,
                      vs_Rudder = S_rudder, vs_percent_vs = percent_vs,
                      vs_percent_rudder = percent_rudder\<rparr>\<rparr>,
          inp8)))))))))))))"



record cg =
  NP_percent :: real
  CG_percent :: real
  SM_percent :: real
  NP_mm :: real
  CG_mm :: real

definition cg_and_static_margin :: "real \<Rightarrow> line list \<Rightarrow> py_error + (cg \<times> line list)" where
  "cg_and_static_margin MAC_mm inp0 =
     bindE (get_float (Some 25.0) (Some 40.0) (Some 30.0) inp0) (\<lambda>(NP, inp1).
     bindE (get_float (Some 0.0) (Some 100.0) None inp1) (\<lambda>(CG, inp2).
     let SM = NP - CG in
     Inr (\<lparr>NP_percent = NP, CG_percent = CG, SM_percent = SM,
           NP_mm = (NP / 100.0) * MAC_mm, CG_mm = (CG / 100.0) * MAC_mm\<rparr>,
          inp2)))"




subsection \<open>The geometry formulas in binary64\<close>

text \<open>
  A binary64 value is a finite number, an infinity or a NaN. The finite numbers are the
  reals \<open>m * 2 ^ e\<close> with an integer \<open>m\<close> of at most 53 bits and \<open>- 1074 \<le> e \<le> 971\<close>;
  the sign of a zero is not modelled.
\<close>

datatype double = Fin real | PosInf | NegInf | NotANumber

text \<open>Rounding a real to the nearest integer, a tie going to the even one.\<close>

definition round_half_even :: "real \<Rightarrow> int" where
  "round_half_even y =
     (let f = \<lfloor>y\<rfloor>; d = y - of_int f in
      if d < 1 / 2 then f
      else if 1 / 2 < d then f + 1
      else if even f then f else f + 1)"

text \<open>
  The exponent of the binade of \<open>x\<close>: \<open>e\<close> with \<open>2 ^ e \<le> \<bar>x\<bar> < 2 ^ (e + 1)\<close>, and
  \<open>- 1022\<close> for the subnormal numbers below.
\<close>

definition binade :: "real \<Rightarrow> int" where
  "binade x = max \<lfloor>log 2 \<bar>x\<bar>\<rfloor> (- 1022)"

text \<open>
  Rounding to binary64, to nearest with ties to even: the spacing of the representable
  numbers in the binade of \<open>x\<close> is \<open>2 ^ (e - 52)\<close>, and a rounded magnitude of \<open>2 ^ 1024\<close>
  or more is an infinity. This is also what \<^verbatim>\<open>float(raw)\<close> makes of a decimal
  numeral.
\<close>

definition round64 :: "real \<Rightarrow> double" where
  "round64 x =
     (if x = 0 then Fin 0
      else
        let u = 2 powi (binade x - 52);
            r = of_int (round_half_even (x / u)) * u
        in if 2 ^ 1024 \<le> r then PosInf
           else if r \<le> - (2 ^ 1024) then NegInf
           else Fin r)"

text \<open>
  The operations of a Python float. Addition and multiplication never raise; division
  raises \<^verbatim>\<open>ZeroDivisionError\<close> on a zero divisor before anything else is looked at;
  \<^verbatim>\<open>x ** 2\<close> raises \<^verbatim>\<open>OverflowError\<close> where the square of a finite number
  overflows, and is taken as the correctly rounded square otherwise.
\<close>

fun dadd :: "double \<Rightarrow> double \<Rightarrow> double" where
  "dadd (Fin x) (Fin y) = round64 (x + y)"
| "dadd NotANumber b = NotANumber"
| "dadd a NotANumber = NotANumber"
| "dadd PosInf NegInf = NotANumber"
| "dadd NegInf PosInf = NotANumber"
| "dadd PosInf b = PosInf"
| "dadd a PosInf = PosInf"
| "dadd NegInf b = NegInf"
| "dadd a NegInf = NegInf"

fun dmul :: "double \<Rightarrow> double \<Rightarrow> double" where
  "dmul (Fin x) (Fin y) = round64 (x * y)"
| "dmul NotANumber b = NotANumber"
| "dmul a NotANumber = NotANumber"
| "dmul (Fin x) PosInf = (if x = 0 then NotANumber else if 0 < x then PosInf else NegInf)"
| "dmul (Fin x) NegInf = (if x = 0 then NotANumber else if 0 < x then NegInf else PosInf)"
| "dmul PosInf (Fin y) = (if y = 0 then NotANumber else if 0 < y then PosInf else NegInf)"
| "dmul NegInf (Fin y) = (if y = 0 then NotANumber else if 0 < y then NegInf else PosInf)"
| "dmul PosInf PosInf = PosInf"
| "dmul NegInf NegInf = PosInf"
| "dmul PosInf NegInf = NegInf"
| "dmul NegInf PosInf = NegInf"

fun ddiv :: "double \<Rightarrow> double \<Rightarrow> py_error + double" where
  "ddiv a (Fin y) =
     (if y = 0 then Inl ZeroDivisionError
      else case a of
             Fin x \<Rightarrow> Inr (round64 (x / y))
           | PosInf \<Rightarrow> Inr (if 0 < y then PosInf else NegInf)
           | NegInf \<Rightarrow> Inr (if 0 < y then NegInf else PosInf)
           | NotANumber \<Rightarrow> Inr NotANumber)"
| "ddiv NotANumber b = Inr NotANumber"
| "ddiv a NotANumber = Inr NotANumber"
| "ddiv (Fin x) b = Inr (Fin 0)"
| "ddiv a b = Inr NotANumber"

fun dpow2 :: "double \<Rightarrow> py_error + double" where
  "dpow2 (Fin x) =
     (case round64 (x * x) of
        PosInf \<Rightarrow> Inl OverflowError
      | r \<Rightarrow> Inr r)"
| "dpow2 PosInf = Inr PosInf"
| "dpow2 NegInf = Inr PosInf"
| "dpow2 NotANumber = Inr NotANumber"


text \<open>The comparison \<^verbatim>\<open>a < b\<close> of two floats; it is false when either is a NaN.\<close>

fun dless :: "double \<Rightarrow> double \<Rightarrow> bool" where
  "dless (Fin x) (Fin y) = (x < y)"
| "dless NotANumber b = False"
| "dless a NotANumber = False"
| "dless a NegInf = False"
| "dless NegInf b = True"
| "dless PosInf b = False"
| "dless a PosInf = True"

text \<open>
  \<^verbatim>\<open>get_float\<close> once more: \<^verbatim>\<open>float(raw)\<close> rounds the numeral of the line to binary64,
  and the bounds are compared as floats.
\<close>

fun get_float_f64 ::
  "double option \<Rightarrow> double option \<Rightarrow> double option \<Rightarrow> line list
     \<Rightarrow> py_error + (double \<times> line list)" where
  "get_float_f64 min_val max_val dflt [] = Inl EOFError"
| "get_float_f64 min_val max_val dflt (raw # inp) =
     (case (case raw of Blank \<Rightarrow> dflt | Numeric x \<Rightarrow> Some (round64 x) | Other \<Rightarrow> None) of
        None \<Rightarrow> get_float_f64 min_val max_val dflt inp
      | Some val \<Rightarrow>
          if (case min_val of None \<Rightarrow> False | Some lo \<Rightarrow> dless val lo)
             \<or> (case max_val of None \<Rightarrow> False | Some hi \<Rightarrow> dless hi val)
          then get_float_f64 min_val max_val dflt inp
          else Inr (val, inp))"

text \<open>
  \<^verbatim>\<open>calc_wing_geometry\<close>, \<^verbatim>\<open>calc_tail_geometry\<close>, \<^verbatim>\<open>design_wing\<close> and
  \<^verbatim>\<open>design_empennage\<close> once more, each operation of the source now the binary64 one,
  in the order in which Python evaluates them. A literal of the source is the float it
  denotes: \<^verbatim>\<open>0.05\<close> is \<open>round64 0.05\<close>, and \<^verbatim>\<open>18.0\<close>, \<^verbatim>\<open>100.0\<close> and \<^verbatim>\<open>1.5\<close>
  are representable as they stand.
\<close>

definition calc_wing_geometry_f64 ::
  "double \<Rightarrow> double \<Rightarrow> double \<Rightarrow> py_error + (double \<times> double \<times> double \<times> double)" where
  "calc_wing_geometry_f64 b AR taper_ratio =
     bindE (dpow2 b) (\<lambda>b2.
     bindE (ddiv b2 AR) (\<lambda>S.
     bindE (ddiv S b) (\<lambda>MAC.
     bindE (ddiv (dmul (Fin 2) S) (dmul b (dadd (Fin 1) taper_ratio))) (\<lambda>C_root.
     let C_tip = dmul taper_ratio C_root in
     Inr (S, MAC, C_root, C_tip)))))"


record wing_f64 =
  wf_span :: double
  wf_AR :: double
  wf_taper_ratio :: double
  wf_area :: double
  wf_MAC :: double
  wf_c_root :: double
  wf_c_tip :: double

definition design_wing_f64 :: "line list \<Rightarrow> py_error + (wing_f64 \<times> line list)" where
  "design_wing_f64 inp0 =
     bindE (get_float_f64 None None None inp0) (\<lambda>(span, inp1).
     bindE (get_float_f64 None None None inp1) (\<lambda>(AR, inp2).
     bindE (get_float_f64 None None None inp2) (\<lambda>(taper, inp3).
     bindE (dpow2 span) (\<lambda>span2.
     bindE (ddiv span2 AR) (\<lambda>area.
     bindE (ddiv (dmul (Fin 2) area) (dmul span (dadd (Fin 1) taper))) (\<lambda>c_root.
     let c_tip = dmul taper c_root in
     bindE (ddiv (dmul (Fin 4) area) (dmul (Fin 3) span)) (\<lambda>m1.
     bindE (dpow2 taper) (\<lambda>taper2.
     bindE (dpow2 (dadd (Fin 1) taper)) (\<lambda>den.
     bindE (ddiv (dadd (dadd (Fin 1) taper) taper2) den) (\<lambda>m2.
     let MAC = dmul m1 m2 in
     Inr (\<lparr>wf_span = span, wf_AR = AR, wf_taper_ratio = taper,
           wf_area = area, wf_MAC = MAC, wf_c_root = c_root, wf_c_tip = c_tip\<rparr>,
          inp3)))))))))))"





section \<open>Properties\<close>

subsection \<open>Auxiliary facts: what each function returns when nothing is raised\<close>

lemma bindE_Inr: "bindE (Inr x) f = f x"
  by (simp add: bindE_def)


lemma py_div_nonzero: "b \<noteq> 0 \<Longrightarrow> py_div a b = Inr (a / b)"
  by (simp add: py_div_def)

lemma py_div_zero: "py_div a 0 = Inl ZeroDivisionError"
  by (simp add: py_div_def)

lemma math_sqrt_nonneg: "0 \<le> x \<Longrightarrow> math_sqrt x = Inr (sqrt x)"
  by (simp add: math_sqrt_def)

lemma get_float_bounds:
  "get_float (Some lo) (Some hi) d inp = Inr (v, rest) \<Longrightarrow> lo \<le> v \<and> v \<le> hi"
proof (induction inp)
  case Nil
  then show ?case by simp
next
  case (Cons raw inp)
  then show ?case
    by (cases raw; cases d) (auto split: if_splits)
qed

lemma calc_tail_geometry_value:
  assumes "sp \<noteq> 0" and "taper \<noteq> - 1"
  shows "calc_tail_geometry S_tail sp taper =
           Inr (2 * S_tail / (sp * (1 + taper)), taper * (2 * S_tail / (sp * (1 + taper))))"
proof -
  from assms(2) have "1 + taper \<noteq> 0" by linarith
  with assms(1) have "sp * (1 + taper) \<noteq> 0" by simp
  then have "py_div (2 * S_tail) (sp * (1 + taper)) = Inr (2 * S_tail / (sp * (1 + taper)))"
    by (rule py_div_nonzero)
  then show ?thesis
    by (simp only: calc_tail_geometry_def bindE_Inr Let_def)
qed

lemma calc_wing_geometry_value:
  assumes "b \<noteq> 0" and "AR \<noteq> 0" and "taper \<noteq> - 1"
  shows "calc_wing_geometry b AR taper =
           Inr (b\<^sup>2 / AR, b\<^sup>2 / AR / b, 2 * (b\<^sup>2 / AR) / (b * (1 + taper)),
                taper * (2 * (b\<^sup>2 / AR) / (b * (1 + taper))))"
proof -
  from assms(3) have t: "1 + taper \<noteq> 0" by linarith
  have e1: "\<And>a. py_div a AR = Inr (a / AR)"
    using assms(2) by (simp add: py_div_nonzero)
  have e2: "\<And>a. py_div a b = Inr (a / b)"
    using assms(1) by (simp add: py_div_nonzero)
  have e3: "\<And>a. py_div a (b * (1 + taper)) = Inr (a / (b * (1 + taper)))"
    using assms(1) t by (simp add: py_div_nonzero)
  show ?thesis
    by (simp only: calc_wing_geometry_def bindE_Inr e1 e2 e3 Let_def)
qed

lemma design_wing_value:
  assumes "get_float None None None inp0 = Inr (b, inp1)"
    and "get_float None None None inp1 = Inr (AR, inp2)"
    and "get_float None None None inp2 = Inr (taper, inp3)"
    and "b \<noteq> 0" and "AR \<noteq> 0" and "taper \<noteq> - 1"
  shows "design_wing inp0 =
           Inr (\<lparr>wing_span = b, wing_AR = AR, wing_taper_ratio = taper,
                 wing_area = b\<^sup>2 / AR,
                 wing_MAC = (4 * (b\<^sup>2 / AR) / (3 * b)) * ((1 + taper + taper\<^sup>2) / (1 + taper)\<^sup>2),
                 wing_c_root = 2 * (b\<^sup>2 / AR) / (b * (1 + taper)),
                 wing_c_tip = taper * (2 * (b\<^sup>2 / AR) / (b * (1 + taper)))\<rparr>, inp3)"
proof -
  from assms(6) have t: "1 + taper \<noteq> 0" by linarith
  have e1: "\<And>a. py_div a AR = Inr (a / AR)"
    using assms(5) by (simp add: py_div_nonzero)
  have e2: "\<And>a. py_div a (b * (1 + taper)) = Inr (a / (b * (1 + taper)))"
    using assms(4) t by (simp add: py_div_nonzero)
  have e3: "\<And>a. py_div a (3.0 * b) = Inr (a / (3.0 * b))"
    using assms(4) by (simp add: py_div_nonzero)
  have e4: "\<And>a. py_div a ((1 + taper)\<^sup>2) = Inr (a / (1 + taper)\<^sup>2)"
    using t by (simp add: py_div_nonzero)
  show ?thesis
    apply (simp only: design_wing_def assms(1,2,3) bindE_Inr prod.case e1 e2 e3 e4 Let_def)
    apply simp
    done
qed

lemma design_empennage_value:
  assumes r1: "get_float (Some 18.0) (Some 20.0) None j0 = Inr (p_hs, j1)"
    and r2: "get_float (Some 1.0) (Some 20.0) None j1 = Inr (AR_hs, j2)"
    and r3: "get_float (Some 0.05) (Some 1.5) None j2 = Inr (t_hs, j3)"
    and r4: "get_float (Some 25.0) (Some 50.0) None j3 = Inr (p_el, j4)"
    and r5: "get_float (Some 9.0) (Some 10.0) None j4 = Inr (p_vs, j5)"
    and r6: "get_float (Some 1.0) (Some 10.0) None j5 = Inr (AR_vs, j6)"
    and r7: "get_float (Some 0.05) (Some 1.5) None j6 = Inr (t_vs, j7)"
    and r8: "get_float (Some 25.0) (Some 50.0) None j7 = Inr (p_ru, j8)"
    and pos: "0 < area"
  shows "design_empennage area j0 =
     Inr (\<lparr>emp_HS =
             \<lparr>hs_S = (p_hs / 100) * area,
              hs_span = sqrt (AR_hs * ((p_hs / 100) * area)),
              hs_root = 2 * ((p_hs / 100) * area) / (sqrt (AR_hs * ((p_hs / 100) * area)) * (1 + t_hs)),
              hs_tip = t_hs * (2 * ((p_hs / 100) * area) / (sqrt (AR_hs * ((p_hs / 100) * area)) * (1 + t_hs))),
              hs_Elevator = (p_el / 100) * ((p_hs / 100) * area),
              hs_percent_hs = p_hs, hs_percent_elev = p_el\<rparr>,
           emp_VS =
             \<lparr>vs_S = (p_vs / 100) * area,
              vs_span = sqrt (AR_vs * ((p_vs / 100) * area)),
              vs_root = 2 * ((p_vs / 100) * area) / (sqrt (AR_vs * ((p_vs / 100) * area)) * (1 + t_vs)),
              vs_tip = t_vs * (2 * ((p_vs / 100) * area) / (sqrt (AR_vs * ((p_vs / 100) * area)) * (1 + t_vs))),
              vs_Rudder = (p_ru / 100) * ((p_vs / 100) * area),
              vs_percent_vs = p_vs, vs_percent_rudder = p_ru\<rparr>\<rparr>, j8)"
proof -
  from get_float_bounds [OF r1] have p1: "0 < p_hs" by simp
  from get_float_bounds [OF r2] have a1: "0 < AR_hs" by simp
  from get_float_bounds [OF r3] have t1: "0 < 1 + t_hs" by simp
  from get_float_bounds [OF r5] have p2: "0 < p_vs" by simp
  from get_float_bounds [OF r6] have a2: "0 < AR_vs" by simp
  from get_float_bounds [OF r7] have t2: "0 < 1 + t_vs" by simp
  have h: "0 < AR_hs * ((p_hs / 100.0) * area)"
    using p1 a1 pos by simp
  have v: "0 < AR_vs * ((p_vs / 100.0) * area)"
    using p2 a2 pos by simp
  have s1: "math_sqrt (AR_hs * ((p_hs / 100.0) * area)) = Inr (sqrt (AR_hs * ((p_hs / 100.0) * area)))"
    by (rule math_sqrt_nonneg [OF less_imp_le [OF h]])
  have s2: "math_sqrt (AR_vs * ((p_vs / 100.0) * area)) = Inr (sqrt (AR_vs * ((p_vs / 100.0) * area)))"
    by (rule math_sqrt_nonneg [OF less_imp_le [OF v]])
  have "sqrt (AR_hs * ((p_hs / 100.0) * area)) * (1 + t_hs) \<noteq> 0"
    using mult_pos_pos [OF real_sqrt_gt_zero [OF h] t1] by linarith
  then have d1: "\<And>a. py_div a (sqrt (AR_hs * ((p_hs / 100.0) * area)) * (1 + t_hs))
                   = Inr (a / (sqrt (AR_hs * ((p_hs / 100.0) * area)) * (1 + t_hs)))"
    by (rule py_div_nonzero)
  have "sqrt (AR_vs * ((p_vs / 100.0) * area)) * (1 + t_vs) \<noteq> 0"
    using mult_pos_pos [OF real_sqrt_gt_zero [OF v] t2] by linarith
  then have d2: "\<And>a. py_div a (sqrt (AR_vs * ((p_vs / 100.0) * area)) * (1 + t_vs))
                   = Inr (a / (sqrt (AR_vs * ((p_vs / 100.0) * area)) * (1 + t_vs)))"
    by (rule py_div_nonzero)
  show ?thesis
    apply (simp only: design_empennage_def r1 r2 r3 r4 r5 r6 r7 r8 bindE_Inr prod.case
        s1 s2 d1 d2 Let_def)
    apply simp
    done
qed

lemma test_main_value:
  assumes "cfg_wingspan data \<noteq> 0" and "cfg_aspect_ratio data \<noteq> 0"
    and "cfg_taper_ratio data \<noteq> - 1" and "cfg_tail_taper_H data \<noteq> - 1"
    and "cfg_tail_taper_V data \<noteq> - 1"
  shows "\<exists>r. test_main data = Inr r
           \<and> m_b r = cfg_wingspan data / 1000
           \<and> calc_wing_geometry (m_b r) (cfg_aspect_ratio data) (cfg_taper_ratio data)
               = Inr (m_S r, m_MAC r, m_C_root r, m_C_tip r)
           \<and> tail_areas (m_S r) = (m_SH r, m_SV r)
           \<and> fuselage_dimensions (m_b r) = (m_Lf r, m_Hf r, m_Wf r)
           \<and> m_b_H r = 0.4 * m_b r
           \<and> m_b_V r = m_Hf r
           \<and> calc_tail_geometry (m_SH r) (m_b_H r) (cfg_tail_taper_H data)
               = Inr (m_C_root_H r, m_C_tip_H r)
           \<and> calc_tail_geometry (m_SV r) (m_b_V r) (cfg_tail_taper_V data)
               = Inr (m_C_root_V r, m_C_tip_V r)"
proof -
  define b where "b = cfg_wingspan data / 1000"
  have b: "b \<noteq> 0" using assms(1) by (simp add: b_def)
  have tH: "1 + cfg_tail_taper_H data \<noteq> 0" using assms(4) by linarith
  have tV: "1 + cfg_tail_taper_V data \<noteq> 0" using assms(5) by linarith
  have t: "1 + cfg_taper_ratio data \<noteq> 0" using assms(3) by linarith
  show ?thesis
    using b tH tV t assms(2)
    by (simp add: test_main_def b_def [symmetric] Let_def bindE_Inr
        calc_wing_geometry_def calc_tail_geometry_def tail_areas_def
        fuselage_dimensions_def calc_aerodynamics_def stall_speed_def stability_def py_div_def)
qed




subsection \<open>Auxiliary facts: evaluating a rounding\<close>

lemma two_powr_int: "2 powr (of_int e) = (2::real) powi e"
  by (rule powr_real_of_int') simp_all

lemma binade_normal:
  assumes "2 powi e \<le> \<bar>x\<bar>" and "\<bar>x\<bar> < 2 powi (e + 1)" and "- 1022 \<le> e"
  shows "binade x = e"
proof -
  have "(0::real) < 2 powi e" by simp
  with assms(1) have pos: "0 < \<bar>x\<bar>" by linarith
  have "of_int e \<le> log 2 \<bar>x\<bar>"
    using assms(1) pos by (simp add: le_log_iff two_powr_int)
  moreover have "2 powr (of_int (e + 1)) = (2::real) powi (e + 1)"
    by (rule two_powr_int)
  then have "log 2 \<bar>x\<bar> < of_int (e + 1)"
    using assms(2) pos by (simp only: log_less_iff [of 2 "\<bar>x\<bar>", OF _ pos])
  ultimately have "\<lfloor>log 2 \<bar>x\<bar>\<rfloor> = e"
    by (simp add: floor_eq_iff)
  then show ?thesis
    using assms(3) by (simp add: binade_def)
qed

lemma round64_normal:
  assumes "2 powi e \<le> \<bar>x\<bar>" and "\<bar>x\<bar> < 2 powi (e + 1)" and "- 1022 \<le> e"
  shows "round64 x =
     (let u = 2 powi (e - 52);
          r = of_int (round_half_even (x / u)) * u
      in if 2 ^ 1024 \<le> r then PosInf
         else if r \<le> - (2 ^ 1024) then NegInf
         else Fin r)"
proof -
  have "(0::real) < 2 powi e" by simp
  with assms(1) have "0 < \<bar>x\<bar>" by linarith
  then have "x \<noteq> 0" by simp
  then show ?thesis
    by (simp only: round64_def binade_normal [OF assms] if_False)
qed

subsection \<open>Auxiliary facts: the relative error of a rounding\<close>

text \<open>
  In the normal range a rounding is off by a relative error of at most \<open>2 powi (- 53)\<close>.
  The lemmas below carry this bound through the operations of the chord formulas, under
  range conditions that keep every intermediate result in the normal range.
\<close>

lemma round_half_even_error: "\<bar>of_int (round_half_even y) - y\<bar> \<le> 1 / 2"
proof -
  have "of_int \<lfloor>y\<rfloor> \<le> y" and "y < of_int \<lfloor>y\<rfloor> + 1"
    by linarith+
  then show ?thesis
    by (auto simp: round_half_even_def Let_def)
qed

lemma binade_bounds:
  assumes "2 powi (- 1022) \<le> \<bar>x\<bar>"
  shows "2 powi (binade x) \<le> \<bar>x\<bar>" and "\<bar>x\<bar> < 2 powi (binade x + 1)"
proof -
  have "(0::real) < 2 powi (- 1022)" by simp
  with assms have pos: "0 < \<bar>x\<bar>" by linarith
  define e where "e = \<lfloor>log 2 \<bar>x\<bar>\<rfloor>"
  have "2 powr (of_int (- 1022)) \<le> \<bar>x\<bar>"
    using assms by (simp only: two_powr_int)
  then have "of_int (- 1022) \<le> log 2 \<bar>x\<bar>"
    using pos by (simp add: le_log_iff)
  then have lo: "- 1022 \<le> e"
    unfolding e_def by (simp only: le_floor_iff)
  then have b: "binade x = e"
    by (simp add: binade_def e_def)
  have "of_int e \<le> log 2 \<bar>x\<bar>"
    unfolding e_def by linarith
  then have "2 powr (of_int e) \<le> \<bar>x\<bar>"
    using pos by (simp add: le_log_iff)
  then show "2 powi (binade x) \<le> \<bar>x\<bar>"
    by (simp only: b two_powr_int)
  have "log 2 \<bar>x\<bar> < of_int (e + 1)"
    unfolding e_def by simp
  then have "\<bar>x\<bar> < 2 powr (of_int (e + 1))"
    using pos by (simp only: log_less_iff [of 2 "\<bar>x\<bar>", OF _ pos]) 
  then show "\<bar>x\<bar> < 2 powi (binade x + 1)"
    by (simp only: b two_powr_int)
qed

lemma round64_rel:
  assumes "2 powi (- 1022) \<le> \<bar>x\<bar>" and "\<bar>x\<bar> \<le> 2 ^ 1023"
  shows "\<exists>d. \<bar>d\<bar> \<le> 2 powi (- 53) \<and> round64 x = Fin (x * (1 + d))"
proof -
  have "(0::real) < 2 powi (- 1022)" by simp
  with assms(1) have pos: "0 < \<bar>x\<bar>" by linarith
  then have nz: "x \<noteq> 0" by simp
  define e where "e = binade x"
  define u :: real where "u = 2 powi (e - 52)"
  define r :: real where "r = of_int (round_half_even (x / u)) * u"
  have u: "0 < u" by (simp add: u_def)
  have lo: "2 powi e \<le> \<bar>x\<bar>"
    unfolding e_def by (rule binade_bounds [OF assms(1)])
  have "\<bar>of_int (round_half_even (x / u)) - x / u\<bar> \<le> 1 / 2"
    by (rule round_half_even_error)
  then have "\<bar>of_int (round_half_even (x / u)) - x / u\<bar> * u \<le> 1 / 2 * u"
    using u by (simp only: mult_le_cancel_right_pos)
  moreover have "\<bar>of_int (round_half_even (x / u)) - x / u\<bar> * u = \<bar>r - x\<bar>"
  proof -
    have "r - x = (of_int (round_half_even (x / u)) - x / u) * u"
      using u by (simp add: r_def field_simps)
    then show ?thesis
      using u by (simp add: abs_mult)
  qed
  ultimately have err: "\<bar>r - x\<bar> \<le> u / 2"
    by simp
  have "u / 2 = 2 powi e * 2 powi (- 53)"
    by (simp add: u_def power_int_diff power_int_minus field_simps)
  also have "\<dots> \<le> \<bar>x\<bar> * 2 powi (- 53)"
    using lo by (simp only: mult_le_cancel_right_pos zero_less_power_int zero_less_numeral)
  finally have half: "u / 2 \<le> \<bar>x\<bar> * 2 powi (- 53)" .
  define d where "d = (r - x) / x"
  have "\<bar>d\<bar> = \<bar>r - x\<bar> / \<bar>x\<bar>"
    by (simp add: d_def)
  also have "\<dots> \<le> (\<bar>x\<bar> * 2 powi (- 53)) / \<bar>x\<bar>"
    using err half pos by (simp add: divide_right_mono)
  also have "\<dots> = 2 powi (- 53)"
    using pos by simp
  finally have d: "\<bar>d\<bar> \<le> 2 powi (- 53)" .
  have rx: "r = x * (1 + d)"
    using nz by (simp add: d_def field_simps)
  have "\<bar>r\<bar> \<le> \<bar>x\<bar> + \<bar>r - x\<bar>"
    by linarith
  also have "\<dots> \<le> \<bar>x\<bar> + \<bar>x\<bar> * 2 powi (- 53)"
    using err half by linarith
  also have "\<dots> \<le> 2 ^ 1023 + 2 ^ 1023 * 2 powi (- 53)"
    using assms(2) by (simp add: add_mono mult_right_mono)
  also have "\<dots> < 2 ^ 1024"
    by (simp add: power_int_minus)
  finally have fin: "\<bar>r\<bar> < 2 ^ 1024" .
  from fin have no: "\<not> 2 ^ 1024 \<le> r" "\<not> r \<le> - (2 ^ 1024)"
    by linarith+
  have "round64 x = Fin r"
    by (simp only: round64_def e_def [symmetric] u_def [symmetric] r_def [symmetric]
        Let_def nz no if_False)
  with d rx show ?thesis by blast
qed

lemma round64_bounded:
  assumes "l \<le> x" and "x \<le> h" and "2 powi (- 1022) \<le> l" and "h \<le> 2 ^ 1023"
  shows "\<exists>d. \<bar>d\<bar> \<le> 2 powi (- 53) \<and> round64 x = Fin (x * (1 + d))
             \<and> l / 2 \<le> x * (1 + d) \<and> x * (1 + d) \<le> 2 * h"
proof -
  have "(0::real) < 2 powi (- 1022)" by simp
  with assms(1,3) have x: "0 < x" by linarith
  then have ax: "\<bar>x\<bar> = x" by simp
  have "2 powi (- 1022) \<le> \<bar>x\<bar>" and "\<bar>x\<bar> \<le> 2 ^ 1023"
    using assms ax by linarith+
  from round64_rel [OF this] obtain d
    where d: "\<bar>d\<bar> \<le> 2 powi (- 53)" and r: "round64 x = Fin (x * (1 + d))"
    by blast
  have "(2::real) powi (- 53) \<le> 1 / 2"
    by (simp add: power_int_minus)
  with d have "1 / 2 \<le> 1 + d" and "1 + d \<le> 2"
    by linarith+
  with x have "x * (1 / 2) \<le> x * (1 + d)" and "x * (1 + d) \<le> x * 2"
    by (simp_all only: mult_le_cancel_left_pos)
  with assms(1,2) have "l / 2 \<le> x * (1 + d)" and "x * (1 + d) \<le> 2 * h"
    by linarith+
  with d r show ?thesis by blast
qed

lemma mult_bounds:
  fixes x y :: real
  assumes "0 < l1" and "l1 \<le> x" and "x \<le> h1" and "0 < l2" and "l2 \<le> y" and "y \<le> h2"
  shows "l1 * l2 \<le> x * y" and "x * y \<le> h1 * h2"
  using assms by (auto intro!: mult_mono)

lemma div_bounds:
  fixes x y :: real
  assumes "0 < l1" and "l1 \<le> x" and "x \<le> h1" and "0 < l2" and "l2 \<le> y" and "y \<le> h2"
  shows "l1 / h2 \<le> x / y" and "x / y \<le> h1 / l2"
  using assms by (auto intro!: frac_le)











lemma two_powi_succ: "(2::real) powi (k + 1) = 2 * 2 powi k"
  by (simp add: power_int_add)

lemma two_powi_pred: "(2::real) powi (- (k + 1)) = 2 powi (- k) / 2"
proof -
  have "(2::real) powi (- (k + 1)) = 2 powi (- k + - 1)" by (simp add: algebra_simps)
  also have "\<dots> = 2 powi (- k) * 2 powi (- 1)" by (rule power_int_add) simp
  finally show ?thesis by (simp add: power_int_minus)
qed

lemma round64_range:
  assumes "2 powi (- k) \<le> x" and "x \<le> 2 powi k" and "k \<le> 1000"
  shows "\<exists>g. 1 - 2 powi (- 53) \<le> g \<and> g \<le> 1 + 2 powi (- 53) \<and> round64 x = Fin (x * g)
           \<and> 2 powi (- (k + 1)) \<le> x * g \<and> x * g \<le> 2 powi (k + 1)"
proof -
  have "(2::real) powi (- 1022) \<le> 2 powi (- k)"
    using assms(3) by (intro power_int_increasing) simp_all
  moreover have "(2::real) powi k \<le> 2 powi 1023"
    using assms(3) by (intro power_int_increasing) simp_all
  then have "(2::real) powi k \<le> 2 ^ 1023"
    by simp
  ultimately obtain d where d: "\<bar>d\<bar> \<le> 2 powi (- 53)" "round64 x = Fin (x * (1 + d))"
    "2 powi (- k) / 2 \<le> x * (1 + d)" "x * (1 + d) \<le> 2 * 2 powi k"
    using round64_bounded [OF assms(1,2)] by blast
  from d(1) have "1 - 2 powi (- 53) \<le> 1 + d" "1 + d \<le> 1 + 2 powi (- 53)"
    by (simp_all add: abs_le_iff)
  with d(2,3,4) show ?thesis
    by (intro exI [of _ "1 + d"]) (simp only: two_powi_succ two_powi_pred simp_thms)
qed

lemma range_mult:
  fixes x y :: real
  assumes "2 powi (- j) \<le> x" and "x \<le> 2 powi j" and "2 powi (- k) \<le> y" and "y \<le> 2 powi k"
  shows "2 powi (- (j + k)) \<le> x * y" and "x * y \<le> 2 powi (j + k)"
proof -
  have "(2::real) powi (- j + - k) = 2 powi (- j) * 2 powi (- k)"
    by (rule power_int_add) simp
  moreover have "- j + - k = - (j + k)" by simp
  ultimately have e1: "(2::real) powi (- (j + k)) = 2 powi (- j) * 2 powi (- k)"
    by (simp only:)
  have e2: "(2::real) powi (j + k) = 2 powi j * 2 powi k"
    by (rule power_int_add) simp
  note e = e1 e2
  have p: "(0::real) < 2 powi (- j)" "(0::real) < 2 powi (- k)" by simp_all
  from mult_bounds [OF p(1) assms(1,2) p(2) assms(3,4)]
  show "2 powi (- (j + k)) \<le> x * y" and "x * y \<le> 2 powi (j + k)"
    by (simp_all only: e)
qed

lemma range_div:
  fixes x y :: real
  assumes "2 powi (- j) \<le> x" and "x \<le> 2 powi j" and "2 powi (- k) \<le> y" and "y \<le> 2 powi k"
  shows "2 powi (- (j + k)) \<le> x / y" and "x / y \<le> 2 powi (j + k)"
proof -
  have "(2::real) powi (- j + - k) = 2 powi (- j) * 2 powi (- k)"
    by (rule power_int_add) simp
  moreover have "- j + - k = - (j + k)" by simp
  ultimately have "(2::real) powi (- (j + k)) = 2 powi (- j) * 2 powi (- k)"
    by (simp only:)
  then have e1: "(2::real) powi (- (j + k)) = 2 powi (- j) / 2 powi k"
    by (simp add: power_int_minus [of 2 k] divide_inverse)
  have "(2::real) powi (j + k) = 2 powi j * 2 powi k"
    by (rule power_int_add) simp
  then have e2: "(2::real) powi (j + k) = 2 powi j / 2 powi (- k)"
    by (simp add: power_int_minus [of 2 k] divide_inverse)
  note e = e1 e2
  have p: "(0::real) < 2 powi (- j)" "(0::real) < 2 powi (- k)" by simp_all
  from div_bounds [OF p(1) assms(1,2) p(2) assms(3,4)]
  show "2 powi (- (j + k)) \<le> x / y" and "x / y \<le> 2 powi (j + k)"
    by (simp_all only: e)
qed

lemma ratio_bounds:
  fixes e :: real
  assumes e: "0 < e" "e < 1"
    and a: "1 - e \<le> a1" "a1 \<le> 1 + e" "1 - e \<le> a2" "a2 \<le> 1 + e"
           "1 - e \<le> a3" "a3 \<le> 1 + e" "1 - e \<le> a4" "a4 \<le> 1 + e"
    and b: "1 - e \<le> b1" "b1 \<le> 1 + e" "1 - e \<le> b2" "b2 \<le> 1 + e"
           "1 - e \<le> b3" "b3 \<le> 1 + e"
  shows "(1 - e) * (1 - e) * (1 - e) * (1 - e) / ((1 + e) * (1 + e) * (1 + e))
           \<le> a1 * a2 * a3 * a4 / (b1 * b2 * b3)"
    and "a1 * a2 * a3 * a4 / (b1 * b2 * b3)
           \<le> (1 + e) * (1 + e) * (1 + e) * (1 + e) / ((1 - e) * (1 - e) * (1 - e))"
proof -
  have lo: "0 < 1 - e" using e by simp
  have l2: "0 < (1 - e) * (1 - e)" using lo by simp
  have l3: "0 < (1 - e) * (1 - e) * (1 - e)" using lo by simp
  have l4: "0 < (1 - e) * (1 - e) * (1 - e) * (1 - e)" using lo by simp
  have a12: "(1 - e) * (1 - e) \<le> a1 * a2" "a1 * a2 \<le> (1 + e) * (1 + e)"
    using mult_bounds [OF lo a(1,2) lo a(3,4)] by simp_all
  have a123: "(1 - e) * (1 - e) * (1 - e) \<le> a1 * a2 * a3"
    "a1 * a2 * a3 \<le> (1 + e) * (1 + e) * (1 + e)"
    using mult_bounds [OF l2 a12 lo a(5,6)] by simp_all
  have a1234: "(1 - e) * (1 - e) * (1 - e) * (1 - e) \<le> a1 * a2 * a3 * a4"
    "a1 * a2 * a3 * a4 \<le> (1 + e) * (1 + e) * (1 + e) * (1 + e)"
    using mult_bounds [OF l3 a123 lo a(7,8)] by simp_all
  have b12: "(1 - e) * (1 - e) \<le> b1 * b2" "b1 * b2 \<le> (1 + e) * (1 + e)"
    using mult_bounds [OF lo b(1,2) lo b(3,4)] by simp_all
  have b123: "(1 - e) * (1 - e) * (1 - e) \<le> b1 * b2 * b3"
    "b1 * b2 * b3 \<le> (1 + e) * (1 + e) * (1 + e)"
    using mult_bounds [OF l2 b12 lo b(5,6)] by simp_all
  from div_bounds [OF l4 a1234 l3 b123]
  show "(1 - e) * (1 - e) * (1 - e) * (1 - e) / ((1 + e) * (1 + e) * (1 + e))
           \<le> a1 * a2 * a3 * a4 / (b1 * b2 * b3)"
    and "a1 * a2 * a3 * a4 / (b1 * b2 * b3)
           \<le> (1 + e) * (1 + e) * (1 + e) * (1 + e) / ((1 - e) * (1 - e) * (1 - e))"
    by simp_all
qed

lemma rounding_ratio:
  fixes X Y :: real
  assumes a: "1 - 2 powi (- 53) \<le> a1" "a1 \<le> 1 + 2 powi (- 53)"
             "1 - 2 powi (- 53) \<le> a2" "a2 \<le> 1 + 2 powi (- 53)"
             "1 - 2 powi (- 53) \<le> a3" "a3 \<le> 1 + 2 powi (- 53)"
             "1 - 2 powi (- 53) \<le> a4" "a4 \<le> 1 + 2 powi (- 53)"
    and b: "1 - 2 powi (- 53) \<le> b1" "b1 \<le> 1 + 2 powi (- 53)"
           "1 - 2 powi (- 53) \<le> b2" "b2 \<le> 1 + 2 powi (- 53)"
           "1 - 2 powi (- 53) \<le> b3" "b3 \<le> 1 + 2 powi (- 53)"
    and Y: "0 < Y"
    and X: "X = Y * (a1 * a2 * a3 * a4 / (b1 * b2 * b3))"
  shows "\<bar>X - Y\<bar> \<le> Y / 10 ^ 15"
proof -
  define e :: real where "e = 2 powi (- 53)"
  define R where "R = a1 * a2 * a3 * a4 / (b1 * b2 * b3)"
  have e: "0 < e" "e < 1" by (simp_all add: e_def power_int_minus)
  note r = ratio_bounds [OF e a [folded e_def] b [folded e_def], folded R_def]
  have "1 - 1 / 10 ^ 15 \<le> (1 - e) * (1 - e) * (1 - e) * (1 - e) / ((1 + e) * (1 + e) * (1 + e))"
    by (simp add: e_def power_int_minus)
  moreover
  have "(1 + e) * (1 + e) * (1 + e) * (1 + e) / ((1 - e) * (1 - e) * (1 - e)) \<le> 1 + 1 / 10 ^ 15"
    by (simp add: e_def power_int_minus)
  ultimately have R1: "\<bar>R - 1\<bar> \<le> 1 / 10 ^ 15"
    using r by (simp only: abs_le_iff) linarith
  have "X - Y = Y * (R - 1)"
    by (simp add: X R_def algebra_simps)
  then have "\<bar>X - Y\<bar> = Y * \<bar>R - 1\<bar>"
    using Y by (simp add: abs_mult)
  also have "\<dots> \<le> Y * (1 / 10 ^ 15)"
    using Y R1 by (simp only: mult_le_cancel_left_pos)
  finally show ?thesis by simp
qed

lemma ddiv_finite: "y \<noteq> 0 \<Longrightarrow> ddiv (Fin x) (Fin y) = Inr (round64 (x / y))"
  by simp

lemma mac_f64_rectangular:
  assumes r1: "get_float_f64 None None None k0 = Inr (Fin sp, k1)"
    and r2: "get_float_f64 None None None k1 = Inr (Fin af, k2)"
    and r3: "get_float_f64 None None None k2 = Inr (Fin 1, k3)"
    and sp: "2 powi (- 60) \<le> sp" "sp \<le> 2 ^ 60"
    and af: "2 powi (- 60) \<le> af" "af \<le> 2 ^ 60"
  shows "\<exists>w sq ar m n c ct.
           design_wing_f64 k0 = Inr (w, k3)
         \<and> calc_wing_geometry_f64 (Fin sp) (Fin af) (Fin 1) = Inr (Fin ar, Fin n, Fin c, ct)
         \<and> dpow2 (Fin sp) = Inr sq \<and> ddiv sq (Fin af) = Inr (Fin ar) \<and> 0 < ar
         \<and> wf_area w = Fin ar \<and> wf_MAC w = Fin m \<and> wf_c_root w = Fin c
         \<and> \<bar>m - ar / sp\<bar> \<le> ar / sp / 10 ^ 15
         \<and> \<bar>m - n\<bar> \<le> n / 10 ^ 15
         \<and> \<bar>m - c\<bar> \<le> c / 10 ^ 15
         \<and> \<bar>n - c\<bar> \<le> c / 10 ^ 15"
proof -
  define eps :: real where "eps = 2 powi (- 53)"
  have eps: "0 < eps" "eps < 1" by (simp_all add: eps_def power_int_minus)
  have one: "1 - eps \<le> 1" "1 \<le> 1 + eps" using eps by simp_all
  have sp_r: "2 powi (- 60) \<le> sp" "sp \<le> 2 powi 60" using sp by simp_all
  have af_r: "2 powi (- 60) \<le> af" "af \<le> 2 powi 60" using af by simp_all
  have two_r: "2 powi (- 2) \<le> (2::real)" "(2::real) \<le> 2 powi 2"
    and three_r: "2 powi (- 2) \<le> (3::real)" "(3::real) \<le> 2 powi 2"
    and four_r: "2 powi (- 2) \<le> (4::real)" "(4::real) \<le> 2 powi 2"
    and q_r: "2 powi (- 2) \<le> (3 / 4 :: real)" "(3 / 4 :: real) \<le> 2 powi 2"
    by (simp_all add: power_int_minus)
  have sp0: "0 < sp"
  proof -
    have "(0::real) < 2 powi (- 60)" by simp
    with sp(1) show ?thesis by linarith
  qed
  have af0: "0 < af"
  proof -
    have "(0::real) < 2 powi (- 60)" by simp
    with af(1) show ?thesis by linarith
  qed
  txt \<open>the area\<close>
  have x0: "2 powi (- 120) \<le> sp * sp" "sp * sp \<le> 2 powi 120"
    using range_mult [OF sp_r sp_r] by simp_all
  obtain g0 where g0: "1 - eps \<le> g0" "g0 \<le> 1 + eps"
    and q0: "round64 (sp * sp) = Fin (sp * sp * g0)"
    and y0: "2 powi (- 121) \<le> sp * sp * g0" "sp * sp * g0 \<le> 2 powi 121"
    unfolding eps_def using round64_range [OF x0] by auto
  define sq where "sq = sp * sp * g0"
  have p1: "dpow2 (Fin sp) = Inr (Fin sq)"
    by (simp add: q0 sq_def)
  have x1: "2 powi (- 181) \<le> sq / af" "sq / af \<le> 2 powi 181"
    using range_div [OF y0 [folded sq_def] af_r] by simp_all
  obtain g9 where g9: "1 - eps \<le> g9" "g9 \<le> 1 + eps"
    and q9: "round64 (sq / af) = Fin (sq / af * g9)"
    and y9: "2 powi (- 182) \<le> sq / af * g9" "sq / af * g9 \<le> 2 powi 182"
    unfolding eps_def using round64_range [OF x1] by auto
  define ar where "ar = sq / af * g9"
  note ar_r = y9 [folded ar_def]
  have p2: "ddiv (Fin sq) (Fin af) = Inr (Fin ar)"
    using af0 by (simp add: q9 ar_def)
  have ar0: "0 < ar"
  proof -
    have "(0::real) < 2 powi (- 182)" by simp
    with ar_r(1) show ?thesis by linarith
  qed
  txt \<open>the chord of \<^verbatim>\<open>design_wing\<close>\<close>
  have x1: "2 powi (- 184) \<le> 4 * ar" "4 * ar \<le> 2 powi 184"
    using range_mult [OF four_r ar_r] by simp_all
  obtain g1 where g1: "1 - eps \<le> g1" "g1 \<le> 1 + eps"
    and q1: "round64 (4 * ar) = Fin (4 * ar * g1)"
    and y1: "2 powi (- 185) \<le> 4 * ar * g1" "4 * ar * g1 \<le> 2 powi 185"
    unfolding eps_def using round64_range [OF x1] by auto
  have x2: "2 powi (- 62) \<le> 3 * sp" "3 * sp \<le> 2 powi 62"
    using range_mult [OF three_r sp_r] by simp_all
  obtain g2 where g2: "1 - eps \<le> g2" "g2 \<le> 1 + eps"
    and q2: "round64 (3 * sp) = Fin (3 * sp * g2)"
    and y2: "2 powi (- 63) \<le> 3 * sp * g2" "3 * sp * g2 \<le> 2 powi 63"
    unfolding eps_def using round64_range [OF x2] by auto
  have x3: "2 powi (- 248) \<le> 4 * ar * g1 / (3 * sp * g2)" "4 * ar * g1 / (3 * sp * g2) \<le> 2 powi 248"
    using range_div [OF y1 y2] by simp_all
  obtain g3 where g3: "1 - eps \<le> g3" "g3 \<le> 1 + eps"
    and q3: "round64 (4 * ar * g1 / (3 * sp * g2)) = Fin (4 * ar * g1 / (3 * sp * g2) * g3)"
    and y3: "2 powi (- 249) \<le> 4 * ar * g1 / (3 * sp * g2) * g3"
            "4 * ar * g1 / (3 * sp * g2) * g3 \<le> 2 powi 249"
    unfolding eps_def using round64_range [OF x3] by auto
  define m1 where "m1 = 4 * ar * g1 / (3 * sp * g2) * g3"
  have x4: "2 powi (- 251) \<le> m1 * (3 / 4)" "m1 * (3 / 4) \<le> 2 powi 251"
    using range_mult [OF y3 [folded m1_def] q_r] by simp_all
  obtain g4 where g4: "1 - eps \<le> g4" "g4 \<le> 1 + eps"
    and q4: "round64 (m1 * (3 / 4)) = Fin (m1 * (3 / 4) * g4)"
    unfolding eps_def using round64_range [OF x4] by auto
  define m where "m = m1 * (3 / 4) * g4"
  txt \<open>the chord of \<^verbatim>\<open>calc_wing_geometry\<close>\<close>
  have x5: "2 powi (- 242) \<le> ar / sp" "ar / sp \<le> 2 powi 242"
    using range_div [OF ar_r sp_r] by simp_all
  obtain g5 where g5: "1 - eps \<le> g5" "g5 \<le> 1 + eps"
    and q5: "round64 (ar / sp) = Fin (ar / sp * g5)"
    and y5: "2 powi (- 243) \<le> ar / sp * g5"
    unfolding eps_def using round64_range [OF x5] by auto
  define n where "n = ar / sp * g5"
  txt \<open>the root chord\<close>
  have x6: "2 powi (- 184) \<le> 2 * ar" "2 * ar \<le> 2 powi 184"
    using range_mult [OF two_r ar_r] by simp_all
  obtain g6 where g6: "1 - eps \<le> g6" "g6 \<le> 1 + eps"
    and q6: "round64 (2 * ar) = Fin (2 * ar * g6)"
    and y6: "2 powi (- 185) \<le> 2 * ar * g6" "2 * ar * g6 \<le> 2 powi 185"
    unfolding eps_def using round64_range [OF x6] by auto
  have x7: "2 powi (- 62) \<le> sp * 2" "sp * 2 \<le> 2 powi 62"
    using range_mult [OF sp_r two_r] by simp_all
  obtain g7 where g7: "1 - eps \<le> g7" "g7 \<le> 1 + eps"
    and q7: "round64 (sp * 2) = Fin (sp * 2 * g7)"
    and y7: "2 powi (- 63) \<le> sp * 2 * g7" "sp * 2 * g7 \<le> 2 powi 63"
    unfolding eps_def using round64_range [OF x7] by auto
  have x8: "2 powi (- 248) \<le> 2 * ar * g6 / (sp * 2 * g7)" "2 * ar * g6 / (sp * 2 * g7) \<le> 2 powi 248"
    using range_div [OF y6 y7] by simp_all
  obtain g8 where g8: "1 - eps \<le> g8" "g8 \<le> 1 + eps"
    and q8: "round64 (2 * ar * g6 / (sp * 2 * g7)) = Fin (2 * ar * g6 / (sp * 2 * g7) * g8)"
    and y8: "2 powi (- 249) \<le> 2 * ar * g6 / (sp * 2 * g7) * g8"
    unfolding eps_def using round64_range [OF x8] by auto
  define c where "c = 2 * ar * g6 / (sp * 2 * g7) * g8"
  txt \<open>what the operations return\<close>
  have d2: "3 * sp * g2 \<noteq> 0"
  proof -
    have "(0::real) < 2 powi (- 63)" by simp
    with y2(1) show ?thesis by linarith
  qed
  have d7: "sp * 2 * g7 \<noteq> 0"
  proof -
    have "(0::real) < 2 powi (- 63)" by simp
    with y7(1) show ?thesis by linarith
  qed
  have o1: "dmul (Fin 4) (Fin ar) = Fin (4 * ar * g1)"
    by (simp only: dmul.simps q1)
  have o2: "dmul (Fin 3) (Fin sp) = Fin (3 * sp * g2)"
    by (simp only: dmul.simps q2)
  have o3: "ddiv (Fin (4 * ar * g1)) (Fin (3 * sp * g2)) = Inr (Fin m1)"
    by (simp only: ddiv_finite [OF d2] q3 m1_def)
  have o4: "dmul (Fin m1) (Fin (3 / 4)) = Fin m"
    by (simp only: dmul.simps q4 m_def)
  have o5: "ddiv (Fin ar) (Fin sp) = Inr (Fin n)"
    using sp0 by (simp add: q5 n_def)
  have o6: "dmul (Fin 2) (Fin ar) = Fin (2 * ar * g6)"
    by (simp only: dmul.simps q6)
  have o7: "dmul (Fin sp) (Fin 2) = Fin (sp * 2 * g7)"
    by (simp only: dmul.simps q7)
  have o8: "ddiv (Fin (2 * ar * g6)) (Fin (sp * 2 * g7)) = Inr (Fin c)"
    by (simp only: ddiv_finite [OF d7] q8 c_def)
  have k1: "dadd (Fin 1) (Fin 1) = Fin 2"
    by (simp add: round64_normal [of 1] round_half_even_def Let_def)
  have k2: "dpow2 (Fin 1) = Inr (Fin 1)"
    by (simp add: round64_normal [of 0] round_half_even_def Let_def)
  have k3: "dadd (Fin 2) (Fin 1) = Fin 3"
    by (simp add: round64_normal [of 1] round_half_even_def Let_def)
  have k4: "dpow2 (Fin 2) = Inr (Fin 4)"
    by (simp add: round64_normal [of 2] round_half_even_def Let_def)
  have k5: "ddiv (Fin 3) (Fin 4) = Inr (Fin (3 / 4))"
    by (simp add: round64_normal [of "- 1"] round_half_even_def Let_def)
  have wing: "design_wing_f64 k0 =
      Inr (\<lparr>wf_span = Fin sp, wf_AR = Fin af, wf_taper_ratio = Fin 1,
             wf_area = Fin ar, wf_MAC = Fin m, wf_c_root = Fin c,
             wf_c_tip = dmul (Fin 1) (Fin c)\<rparr>, k3)"
    by (simp only: design_wing_f64_def r1 r2 r3 bindE_Inr prod.case Let_def
        p1 p2 k1 k2 k3 k4 k5 o1 o2 o3 o4 o6 o7 o8)
  have batch: "calc_wing_geometry_f64 (Fin sp) (Fin af) (Fin 1)
      = Inr (Fin ar, Fin n, Fin c, dmul (Fin 1) (Fin c))"
    by (simp only: calc_wing_geometry_f64_def bindE_Inr Let_def p1 p2 k1 o5 o6 o7 o8)
  txt \<open>the three chords as multiples of \<open>ar / sp\<close>\<close>
  have gpos: "0 < g2" "0 < g5" "0 < g6" "0 < g7" "0 < g8"
    using g2 g5 g6 g7 g8 eps by linarith+
  define Y where "Y = ar / sp"
  have Y0: "0 < Y" using ar0 sp0 by (simp add: Y_def)
  have m_Y: "m = Y * (g1 * g3 * g4 * 1 / (g2 * 1 * 1))"
    using sp0 gpos by (simp add: m_def m1_def Y_def field_simps)
  have n_Y: "n = Y * g5"
    by (simp add: n_def Y_def)
  have c_Y: "c = Y * (g6 * g8 / g7)"
    using sp0 gpos by (simp add: c_def Y_def field_simps)
  have n0: "0 < n" using Y0 gpos by (simp add: n_Y)
  have c0: "0 < c" using Y0 gpos by (simp add: c_Y)
  have m_n: "m = n * (g1 * g3 * g4 * 1 / (g2 * g5 * 1))"
    using gpos by (simp add: m_Y n_Y field_simps)
  have m_c: "m = c * (g1 * g3 * g4 * g7 / (g2 * g6 * g8))"
    using gpos by (simp add: m_Y c_Y field_simps)
  have n_c: "n = c * (g5 * g7 * 1 * 1 / (g6 * g8 * 1))"
    using gpos by (simp add: n_Y c_Y field_simps)
  have i1: "\<bar>m - Y\<bar> \<le> Y / 10 ^ 15"
    by (rule rounding_ratio [OF g1 [unfolded eps_def] g3 [unfolded eps_def]
          g4 [unfolded eps_def] one [unfolded eps_def] g2 [unfolded eps_def]
          one [unfolded eps_def] one [unfolded eps_def] Y0 m_Y])
  have i2: "\<bar>m - n\<bar> \<le> n / 10 ^ 15"
    by (rule rounding_ratio [OF g1 [unfolded eps_def] g3 [unfolded eps_def]
          g4 [unfolded eps_def] one [unfolded eps_def] g2 [unfolded eps_def]
          g5 [unfolded eps_def] one [unfolded eps_def] n0 m_n])
  have i3: "\<bar>m - c\<bar> \<le> c / 10 ^ 15"
    by (rule rounding_ratio [OF g1 [unfolded eps_def] g3 [unfolded eps_def]
          g4 [unfolded eps_def] g7 [unfolded eps_def] g2 [unfolded eps_def]
          g6 [unfolded eps_def] g8 [unfolded eps_def] c0 m_c])
  have i4: "\<bar>n - c\<bar> \<le> c / 10 ^ 15"
    by (rule rounding_ratio [OF g5 [unfolded eps_def] g7 [unfolded eps_def]
          one [unfolded eps_def] one [unfolded eps_def] g6 [unfolded eps_def]
          g8 [unfolded eps_def] one [unfolded eps_def] c0 n_c])
  show ?thesis
    apply (simp only: wing batch p1)
    apply (intro exI conjI)
               apply (rule refl)
              apply (rule refl)
             apply (rule refl)
            apply (rule p2)
           apply (rule ar0)
          apply (simp_all only: wing_f64.select_convs)
       apply (rule i1 [unfolded Y_def])
      apply (rule i2)
     apply (rule i3)
    apply (rule i4)
    done
qed

subsection \<open>Wing geometry\<close>

text \<open>
  Claim C1 as stated, refuted in binary64. The claim says that the mean aerodynamic chord
  of \<^verbatim>\<open>design_wing\<close> and the one of \<^verbatim>\<open>calc_wing_geometry\<close> are equal exactly when
  the taper ratio is 1, and that at taper ratio 1 each is exactly the root chord. For span
  1200, aspect ratio 9 and taper ratio 1, \<^verbatim>\<open>design_wing\<close> returns the chord
  \<open>2345624805922133 / 2 ^ 44\<close> (133.33333333333331), one unit in the last place below
  its root chord and below the chord of \<^verbatim>\<open>calc_wing_geometry\<close>, both
  \<open>4691249611844267 / 2 ^ 45\<close> (133.33333333333334). For span 1200, aspect ratio 8 and
  the taper ratio typed as 0.99999999, which is not 1, both return the chord 150.
\<close>

theorem mac_values_differ_in_binary64_counterexample:
  "design_wing_f64 [Numeric 1200, Numeric 9, Numeric 1]
     = Inr (\<lparr>wf_span = Fin 1200, wf_AR = Fin 9, wf_taper_ratio = Fin 1,
             wf_area = Fin 160000,
             wf_MAC = Fin (2345624805922133 / 2 ^ 44),
             wf_c_root = Fin (4691249611844267 / 2 ^ 45),
             wf_c_tip = Fin (4691249611844267 / 2 ^ 45)\<rparr>, [])
 \<and> calc_wing_geometry_f64 (Fin 1200) (Fin 9) (Fin 1)
     = Inr (Fin 160000, Fin (4691249611844267 / 2 ^ 45),
            Fin (4691249611844267 / 2 ^ 45), Fin (4691249611844267 / 2 ^ 45))
 \<and> Fin (2345624805922133 / 2 ^ 44) \<noteq> Fin (4691249611844267 / 2 ^ 45)
 \<and> design_wing_f64 [Numeric 1200, Numeric 8, Numeric 0.99999999]
     = Inr (\<lparr>wf_span = Fin 1200, wf_AR = Fin 8,
             wf_taper_ratio = Fin (9007199164668999 / 2 ^ 53),
             wf_area = Fin 180000,
             wf_MAC = Fin 150,
             wf_c_root = Fin (5277655839713079 / 2 ^ 45),
             wf_c_tip = Fin (659706973367065 / 2 ^ 42)\<rparr>, [])
 \<and> calc_wing_geometry_f64 (Fin 1200) (Fin 8) (Fin (9007199164668999 / 2 ^ 53))
     = Inr (Fin 180000, Fin 150,
            Fin (5277655839713079 / 2 ^ 45), Fin (659706973367065 / 2 ^ 42))
 \<and> (9007199164668999 / 2 ^ 53 :: real) \<noteq> 1"
proof -
  have g: "\<And>x rest. get_float_f64 None None None (Numeric x # rest) = Inr (round64 x, rest)"
    by simp
  have f0: "round64 1200 = Fin 1200"
    by (simp add: round64_normal [of 10] round_half_even_def Let_def)
  have f1: "round64 9 = Fin 9"
    by (simp add: round64_normal [of 3] round_half_even_def Let_def)
  have f2: "round64 1 = Fin 1"
    by (simp add: round64_normal [of 0] round_half_even_def Let_def)
  have f3: "dpow2 (Fin 1200) = Inr (Fin 1440000)"
    by (simp add: round64_normal [of 20] round_half_even_def Let_def)
  have f4: "ddiv (Fin 1440000) (Fin 9) = Inr (Fin 160000)"
    by (simp add: round64_normal [of 17] round_half_even_def Let_def)
  have f5: "dmul (Fin 2) (Fin 160000) = Fin 320000"
    by (simp add: round64_normal [of 18] round_half_even_def Let_def)
  have f6: "dadd (Fin 1) (Fin 1) = Fin 2"
    by (simp add: round64_normal [of 1] round_half_even_def Let_def)
  have f7: "dmul (Fin 1200) (Fin 2) = Fin 2400"
    by (simp add: round64_normal [of 11] round_half_even_def Let_def)
  have f8: "ddiv (Fin 320000) (Fin 2400) = Inr (Fin (4691249611844267 / 2 ^ 45))"
    by (simp add: round64_normal [of 7] round_half_even_def Let_def)
  have f9: "dmul (Fin 1) (Fin (4691249611844267 / 2 ^ 45)) = Fin (4691249611844267 / 2 ^ 45)"
    by (simp add: round64_normal [of 7] round_half_even_def Let_def)
  have f10: "dmul (Fin 4) (Fin 160000) = Fin 640000"
    by (simp add: round64_normal [of 19] round_half_even_def Let_def)
  have f11: "dmul (Fin 3) (Fin 1200) = Fin 3600"
    by (simp add: round64_normal [of 11] round_half_even_def Let_def)
  have f12: "ddiv (Fin 640000) (Fin 3600) = Inr (Fin (3127499741229511 / 2 ^ 44))"
    by (simp add: round64_normal [of 7] round_half_even_def Let_def)
  have f13: "dpow2 (Fin 1) = Inr (Fin 1)"
    by (simp add: round64_normal [of 0] round_half_even_def Let_def)
  have f14: "dadd (Fin 2) (Fin 1) = Fin 3"
    by (simp add: round64_normal [of 1] round_half_even_def Let_def)
  have f15: "dpow2 (Fin 2) = Inr (Fin 4)"
    by (simp add: round64_normal [of 2] round_half_even_def Let_def)
  have f16: "ddiv (Fin 3) (Fin 4) = Inr (Fin (3 / 2 ^ 2))"
    by (simp add: round64_normal [of "- 1"] round_half_even_def Let_def)
  have f17: "dmul (Fin (3127499741229511 / 2 ^ 44)) (Fin (3 / 2 ^ 2)) = Fin (2345624805922133 / 2 ^ 44)"
    by (simp add: round64_normal [of 7] round_half_even_def Let_def)
  have f18: "ddiv (Fin 160000) (Fin 1200) = Inr (Fin (4691249611844267 / 2 ^ 45))"
    by (simp add: round64_normal [of 7] round_half_even_def Let_def)
  have f19: "round64 8 = Fin 8"
    by (simp add: round64_normal [of 3] round_half_even_def Let_def)
  have f20: "round64 0.99999999 = Fin (9007199164668999 / 2 ^ 53)"
    by (simp add: round64_normal [of "- 1"] round_half_even_def Let_def)
  have f21: "ddiv (Fin 1440000) (Fin 8) = Inr (Fin 180000)"
    by (simp add: round64_normal [of 17] round_half_even_def Let_def)
  have f22: "dmul (Fin 2) (Fin 180000) = Fin 360000"
    by (simp add: round64_normal [of 18] round_half_even_def Let_def)
  have f23: "dadd (Fin 1) (Fin (9007199164668999 / 2 ^ 53)) = Fin (2251799802426249 / 2 ^ 50)"
    by (simp add: round64_normal [of 0] round_half_even_def Let_def)
  have f24: "dmul (Fin 1200) (Fin (2251799802426249 / 2 ^ 50)) = Fin (5277655786936521 / 2 ^ 41)"
    by (simp add: round64_normal [of 11] round_half_even_def Let_def)
  have f25: "ddiv (Fin 360000) (Fin (5277655786936521 / 2 ^ 41)) = Inr (Fin (5277655839713079 / 2 ^ 45))"
    by (simp add: round64_normal [of 7] round_half_even_def Let_def)
  have f26: "dmul (Fin (9007199164668999 / 2 ^ 53)) (Fin (5277655839713079 / 2 ^ 45)) = Fin (659706973367065 / 2 ^ 42)"
    by (simp add: round64_normal [of 7] round_half_even_def Let_def)
  have f27: "dmul (Fin 4) (Fin 180000) = Fin 720000"
    by (simp add: round64_normal [of 19] round_half_even_def Let_def)
  have f28: "ddiv (Fin 720000) (Fin 3600) = Inr (Fin 200)"
    by (simp add: round64_normal [of 7] round_half_even_def Let_def)
  have f29: "dpow2 (Fin (9007199164668999 / 2 ^ 53)) = Inr (Fin (9007199074597007 / 2 ^ 53))"
    by (simp add: round64_normal [of "- 1"] round_half_even_def Let_def)
  have f30: "dadd (Fin (2251799802426249 / 2 ^ 50)) (Fin (9007199074597007 / 2 ^ 53)) = Fin (3377699686750875 / 2 ^ 50)"
    by (simp add: round64_normal [of 1] round_half_even_def Let_def)
  have f31: "dpow2 (Fin (2251799802426249 / 2 ^ 50)) = Inr (Fin (1125899895583625 / 2 ^ 48))"
    by (simp add: round64_normal [of 1] round_half_even_def Let_def)
  have f32: "ddiv (Fin (3377699686750875 / 2 ^ 50)) (Fin (1125899895583625 / 2 ^ 48)) = Inr (Fin (3 / 2 ^ 2))"
    by (simp add: round64_normal [of "- 1"] round_half_even_def Let_def)
  have f33: "dmul (Fin 200) (Fin (3 / 2 ^ 2)) = Fin 150"
    by (simp add: round64_normal [of 7] round_half_even_def Let_def)
  have f34: "ddiv (Fin 180000) (Fin 1200) = Inr (Fin 150)"
    by (simp add: round64_normal [of 7] round_half_even_def Let_def)
  note ev = f0 f1 f2 f3 f4 f5 f6 f7 f8 f9 f10 f11 f12 f13 f14 f15 f16 f17 f18 f19 f20 f21 f22 f23 f24 f25 f26 f27 f28 f29 f30 f31 f32 f33 f34
  have w1: "design_wing_f64 [Numeric 1200, Numeric 9, Numeric 1]
     = Inr (\<lparr>wf_span = Fin 1200, wf_AR = Fin 9, wf_taper_ratio = Fin 1,
             wf_area = Fin 160000,
             wf_MAC = Fin (2345624805922133 / 2 ^ 44),
             wf_c_root = Fin (4691249611844267 / 2 ^ 45),
             wf_c_tip = Fin (4691249611844267 / 2 ^ 45)\<rparr>, [])"
    by (simp only: design_wing_f64_def g bindE_Inr prod.case Let_def ev)
  have b1: "calc_wing_geometry_f64 (Fin 1200) (Fin 9) (Fin 1)
     = Inr (Fin 160000, Fin (4691249611844267 / 2 ^ 45),
            Fin (4691249611844267 / 2 ^ 45), Fin (4691249611844267 / 2 ^ 45))"
    by (simp only: calc_wing_geometry_f64_def bindE_Inr Let_def ev)
  have d1: "Fin (2345624805922133 / 2 ^ 44) \<noteq> Fin (4691249611844267 / 2 ^ 45)"
    by simp
  have w2: "design_wing_f64 [Numeric 1200, Numeric 8, Numeric 0.99999999]
     = Inr (\<lparr>wf_span = Fin 1200, wf_AR = Fin 8,
             wf_taper_ratio = Fin (9007199164668999 / 2 ^ 53),
             wf_area = Fin 180000,
             wf_MAC = Fin 150,
             wf_c_root = Fin (5277655839713079 / 2 ^ 45),
             wf_c_tip = Fin (659706973367065 / 2 ^ 42)\<rparr>, [])"
    by (simp only: design_wing_f64_def g bindE_Inr prod.case Let_def ev)
  have b2: "calc_wing_geometry_f64 (Fin 1200) (Fin 8) (Fin (9007199164668999 / 2 ^ 53))
     = Inr (Fin 180000, Fin 150,
            Fin (5277655839713079 / 2 ^ 45), Fin (659706973367065 / 2 ^ 42))"
    by (simp only: calc_wing_geometry_f64_def bindE_Inr Let_def ev)
  have d2: "(9007199164668999 / 2 ^ 53 :: real) \<noteq> 1"
    by simp
  from w1 b1 d1 w2 b2 d2 show ?thesis by (intro conjI)
qed

text \<open>
  Claim C1, amended. In exact real arithmetic, for a positive span, aspect ratio and taper
  ratio, \<^verbatim>\<open>design_wing\<close> returns the chord of the trapezoidal formula,
  \<open>4 * area / (3 * span) * ((1 + taper + taper\<^sup>2) / (1 + taper)\<^sup>2)\<close>, and
  \<^verbatim>\<open>calc_wing_geometry\<close> returns \<open>area / span\<close>, with \<open>area = span\<^sup>2 / aspectRatio\<close> in
  both; the two numbers are equal exactly when the taper ratio is 1, and at taper ratio 1
  each is the root chord \<open>2 * area / (span * (1 + taper))\<close>.

  In binary64 the equalities hold up to rounding only, as the instances above show. At
  taper ratio 1, and for a span and an aspect ratio between \<open>2 powi (- 60)\<close> and
  \<open>2 ^ 60\<close>, both functions raise nothing and return the same positive area; the chord
  \<open>m\<close> of \<^verbatim>\<open>design_wing\<close>, the chord \<open>n\<close> of \<^verbatim>\<open>calc_wing_geometry\<close> and the root chord
  \<open>c\<close>, which the two functions compute alike, are within the relative distance
  \<open>10\<^sup>-\<^sup>1\<^sup>5\<close> of one another, and \<open>m\<close> is as close to the exact quotient of the
  returned area by the span. The bounds are proved for every real in the range, so in
  particular for every float there.
\<close>

theorem mac_formulas_agree_iff_rectangular:
  "(get_float None None None inp0 = Inr (b, inp1)
      \<and> get_float None None None inp1 = Inr (AR, inp2)
      \<and> get_float None None None inp2 = Inr (taper, inp3)
      \<and> 0 < b \<and> 0 < AR \<and> 0 < taper \<longrightarrow>
      (\<exists>w S MAC C_root C_tip.
           design_wing inp0 = Inr (w, inp3)
         \<and> calc_wing_geometry b AR taper = Inr (S, MAC, C_root, C_tip)
         \<and> wing_area w = b\<^sup>2 / AR
         \<and> S = b\<^sup>2 / AR
         \<and> wing_MAC w
             = (4 * wing_area w / (3 * b)) * ((1 + taper + taper\<^sup>2) / (1 + taper)\<^sup>2)
         \<and> MAC = S / b
         \<and> wing_c_root w = 2 * wing_area w / (b * (1 + taper))
         \<and> C_root = 2 * S / (b * (1 + taper))
         \<and> (wing_MAC w = MAC \<longleftrightarrow> taper = 1)
         \<and> (taper = 1 \<longrightarrow> wing_MAC w = wing_c_root w \<and> MAC = C_root)))
 \<and> (get_float_f64 None None None k0 = Inr (Fin fb, k1)
      \<and> get_float_f64 None None None k1 = Inr (Fin fAR, k2)
      \<and> get_float_f64 None None None k2 = Inr (Fin 1, k3)
      \<and> 2 powi (- 60) \<le> fb \<and> fb \<le> 2 ^ 60
      \<and> 2 powi (- 60) \<le> fAR \<and> fAR \<le> 2 ^ 60 \<longrightarrow>
      (\<exists>w sq ar m n c ct.
           design_wing_f64 k0 = Inr (w, k3)
         \<and> calc_wing_geometry_f64 (Fin fb) (Fin fAR) (Fin 1) = Inr (Fin ar, Fin n, Fin c, ct)
         \<and> dpow2 (Fin fb) = Inr sq \<and> ddiv sq (Fin fAR) = Inr (Fin ar) \<and> 0 < ar
         \<and> wf_area w = Fin ar \<and> wf_MAC w = Fin m \<and> wf_c_root w = Fin c
         \<and> \<bar>m - ar / fb\<bar> \<le> ar / fb / 10 ^ 15
         \<and> \<bar>m - n\<bar> \<le> n / 10 ^ 15
         \<and> \<bar>m - c\<bar> \<le> c / 10 ^ 15
         \<and> \<bar>n - c\<bar> \<le> c / 10 ^ 15))"
proof -
  have exact: "\<exists>w S MAC C_root C_tip.
           design_wing inp0 = Inr (w, inp3)
         \<and> calc_wing_geometry b AR taper = Inr (S, MAC, C_root, C_tip)
         \<and> wing_area w = b\<^sup>2 / AR
         \<and> S = b\<^sup>2 / AR
         \<and> wing_MAC w
             = (4 * wing_area w / (3 * b)) * ((1 + taper + taper\<^sup>2) / (1 + taper)\<^sup>2)
         \<and> MAC = S / b
         \<and> wing_c_root w = 2 * wing_area w / (b * (1 + taper))
         \<and> C_root = 2 * S / (b * (1 + taper))
         \<and> (wing_MAC w = MAC \<longleftrightarrow> taper = 1)
         \<and> (taper = 1 \<longrightarrow> wing_MAC w = wing_c_root w \<and> MAC = C_root)"
    if r: "get_float None None None inp0 = Inr (b, inp1)"
      "get_float None None None inp1 = Inr (AR, inp2)"
      "get_float None None None inp2 = Inr (taper, inp3)"
      and pos: "0 < b" "0 < AR" "0 < taper"
  proof -
    from pos have nz: "b \<noteq> 0" "AR \<noteq> 0" "taper \<noteq> - 1" by simp_all
    define c where "c = b / AR"
    have c: "c \<noteq> 0" using nz by (simp add: c_def)
    have t: "(1 + taper)\<^sup>2 \<noteq> 0" using pos(3) by simp
    have batch: "b\<^sup>2 / AR / b = c"
      using nz by (simp add: c_def power2_eq_square)
    have a: "(4 * (b\<^sup>2 / AR) / (3 * b)) = c * (4 / 3)"
      using nz by (simp add: c_def power2_eq_square)
    have "c * (4 / 3) * (N / D) = c * (4 * N / (3 * D))" for N D :: real
      by simp
    then have m: "(4 * (b\<^sup>2 / AR) / (3 * b)) * ((1 + taper + taper\<^sup>2) / (1 + taper)\<^sup>2)
               = c * (4 * (1 + taper + taper\<^sup>2) / (3 * (1 + taper)\<^sup>2))"
      by (simp only: a)
    have cancel: "(c * x = c) = (x = 1)" for x
      using c by simp
    have ratio: "D \<noteq> 0 \<Longrightarrow> (N / D = 1) = (N = D)" for N D :: real
      by auto
    have t3: "3 * (1 + taper)\<^sup>2 \<noteq> 0"
      using t by simp
    have "c * (4 * (1 + taper + taper\<^sup>2) / (3 * (1 + taper)\<^sup>2)) = c
            \<longleftrightarrow> 4 * (1 + taper + taper\<^sup>2) / (3 * (1 + taper)\<^sup>2) = 1"
      by (rule cancel)
    also have "\<dots> \<longleftrightarrow> 4 * (1 + taper + taper\<^sup>2) = 3 * (1 + taper)\<^sup>2"
      by (rule ratio [OF t3])
    also have "\<dots> \<longleftrightarrow> (taper - 1)\<^sup>2 = 0"
      by (simp add: power2_eq_square algebra_simps)
    also have "\<dots> \<longleftrightarrow> taper = 1"
      by simp
    finally have iff: "(4 * (b\<^sup>2 / AR) / (3 * b)) * ((1 + taper + taper\<^sup>2) / (1 + taper)\<^sup>2)
                          = b\<^sup>2 / AR / b \<longleftrightarrow> taper = 1"
      by (simp only: m batch)
    have rect: "taper = 1 \<Longrightarrow> 2 * (b\<^sup>2 / AR) / (b * (1 + taper)) = b\<^sup>2 / AR / b"
      by simp
    show ?thesis
      using iff rect
      by (simp add: design_wing_value [OF r nz] calc_wing_geometry_value [OF nz])
  qed
  have rounded: "\<exists>w sq ar m n c ct.
           design_wing_f64 k0 = Inr (w, k3)
         \<and> calc_wing_geometry_f64 (Fin fb) (Fin fAR) (Fin 1) = Inr (Fin ar, Fin n, Fin c, ct)
         \<and> dpow2 (Fin fb) = Inr sq \<and> ddiv sq (Fin fAR) = Inr (Fin ar) \<and> 0 < ar
         \<and> wf_area w = Fin ar \<and> wf_MAC w = Fin m \<and> wf_c_root w = Fin c
         \<and> \<bar>m - ar / fb\<bar> \<le> ar / fb / 10 ^ 15
         \<and> \<bar>m - n\<bar> \<le> n / 10 ^ 15
         \<and> \<bar>m - c\<bar> \<le> c / 10 ^ 15
         \<and> \<bar>n - c\<bar> \<le> c / 10 ^ 15"
    if "get_float_f64 None None None k0 = Inr (Fin fb, k1)"
      "get_float_f64 None None None k1 = Inr (Fin fAR, k2)"
      "get_float_f64 None None None k2 = Inr (Fin 1, k3)"
      "2 powi (- 60) \<le> fb" "fb \<le> 2 ^ 60" "2 powi (- 60) \<le> fAR" "fAR \<le> 2 ^ 60"
    by (rule mac_f64_rectangular [OF that])
  show ?thesis
    apply (intro conjI impI)
     apply (elim conjE, rule exact, assumption+)
    apply (elim conjE, rule rounded, assumption+)
    done
qed

theorem mac_formulas_agree_iff_rectangular_witness:
  "(\<exists>w S MAC C_root C_tip.
      design_wing [Numeric 1200, Numeric 8, Numeric 1] = Inr (w, [])
    \<and> calc_wing_geometry 1200 8 1 = Inr (S, MAC, C_root, C_tip)
    \<and> wing_MAC w = MAC \<and> wing_MAC w = wing_c_root w \<and> MAC = C_root)
 \<and> (\<exists>w S MAC C_root C_tip.
      design_wing [Numeric 1200, Numeric 8, Numeric 0.6] = Inr (w, [])
    \<and> calc_wing_geometry 1200 8 0.6 = Inr (S, MAC, C_root, C_tip)
    \<and> wing_MAC w \<noteq> MAC)
 \<and> (\<exists>w sq ar m n c ct.
      design_wing_f64 [Numeric 1200, Numeric 9, Numeric 1] = Inr (w, [])
    \<and> calc_wing_geometry_f64 (Fin 1200) (Fin 9) (Fin 1) = Inr (Fin ar, Fin n, Fin c, ct)
    \<and> dpow2 (Fin 1200) = Inr sq \<and> ddiv sq (Fin 9) = Inr (Fin ar) \<and> 0 < ar
    \<and> wf_area w = Fin ar \<and> wf_MAC w = Fin m \<and> wf_c_root w = Fin c
    \<and> \<bar>m - ar / 1200\<bar> \<le> ar / 1200 / 10 ^ 15
    \<and> \<bar>m - n\<bar> \<le> n / 10 ^ 15
    \<and> \<bar>m - c\<bar> \<le> c / 10 ^ 15
    \<and> \<bar>n - c\<bar> \<le> c / 10 ^ 15)"
proof -
  have g: "\<And>x rest. get_float None None None (Numeric x # rest) = Inr (x, rest)"
    by simp
  have "get_float None None None [Numeric 1200, Numeric 8, Numeric 1]
          = Inr (1200, [Numeric 8, Numeric 1])
      \<and> get_float None None None [Numeric 8, Numeric 1] = Inr (8, [Numeric 1])
      \<and> get_float None None None [Numeric 1] = Inr (1, [])
      \<and> (0::real) < 1200 \<and> (0::real) < 8 \<and> (0::real) < 1 \<longrightarrow>
      (\<exists>w S MAC C_root C_tip.
           design_wing [Numeric 1200, Numeric 8, Numeric 1] = Inr (w, [])
         \<and> calc_wing_geometry 1200 8 1 = Inr (S, MAC, C_root, C_tip)
         \<and> wing_area w = 1200\<^sup>2 / 8
         \<and> S = 1200\<^sup>2 / 8
         \<and> wing_MAC w = (4 * wing_area w / (3 * 1200)) * ((1 + 1 + 1\<^sup>2) / (1 + 1)\<^sup>2)
         \<and> MAC = S / 1200
         \<and> wing_c_root w = 2 * wing_area w / (1200 * (1 + 1))
         \<and> C_root = 2 * S / (1200 * (1 + 1))
         \<and> (wing_MAC w = MAC \<longleftrightarrow> (1::real) = 1)
         \<and> ((1::real) = 1 \<longrightarrow> wing_MAC w = wing_c_root w \<and> MAC = C_root))"
    by (rule mac_formulas_agree_iff_rectangular [THEN conjunct1])
  moreover have "get_float None None None [Numeric 1200, Numeric 8, Numeric 1]
          = Inr (1200, [Numeric 8, Numeric 1])
      \<and> get_float None None None [Numeric 8, Numeric 1] = Inr (8, [Numeric 1])
      \<and> get_float None None None [Numeric 1] = Inr (1, [])
      \<and> (0::real) < 1200 \<and> (0::real) < 8 \<and> (0::real) < 1"
    by simp
  ultimately have "\<exists>w S MAC C_root C_tip.
           design_wing [Numeric 1200, Numeric 8, Numeric 1] = Inr (w, [])
         \<and> calc_wing_geometry 1200 8 1 = Inr (S, MAC, C_root, C_tip)
         \<and> wing_area w = 1200\<^sup>2 / 8
         \<and> S = 1200\<^sup>2 / 8
         \<and> wing_MAC w = (4 * wing_area w / (3 * 1200)) * ((1 + 1 + 1\<^sup>2) / (1 + 1)\<^sup>2)
         \<and> MAC = S / 1200
         \<and> wing_c_root w = 2 * wing_area w / (1200 * (1 + 1))
         \<and> C_root = 2 * S / (1200 * (1 + 1))
         \<and> (wing_MAC w = MAC \<longleftrightarrow> (1::real) = 1)
         \<and> ((1::real) = 1 \<longrightarrow> wing_MAC w = wing_c_root w \<and> MAC = C_root)"
    by (rule mp)
  then have rect: "\<exists>w S MAC C_root C_tip.
      design_wing [Numeric 1200, Numeric 8, Numeric 1] = Inr (w, [])
    \<and> calc_wing_geometry 1200 8 1 = Inr (S, MAC, C_root, C_tip)
    \<and> wing_MAC w = MAC \<and> wing_MAC w = wing_c_root w \<and> MAC = C_root"
    by fastforce
  have "get_float None None None [Numeric 1200, Numeric 8, Numeric 0.6]
          = Inr (1200, [Numeric 8, Numeric 0.6])
      \<and> get_float None None None [Numeric 8, Numeric 0.6] = Inr (8, [Numeric 0.6])
      \<and> get_float None None None [Numeric 0.6] = Inr (0.6, [])
      \<and> (0::real) < 1200 \<and> (0::real) < 8 \<and> (0::real) < 0.6 \<longrightarrow>
      (\<exists>w S MAC C_root C_tip.
           design_wing [Numeric 1200, Numeric 8, Numeric 0.6] = Inr (w, [])
         \<and> calc_wing_geometry 1200 8 0.6 = Inr (S, MAC, C_root, C_tip)
         \<and> wing_area w = 1200\<^sup>2 / 8
         \<and> S = 1200\<^sup>2 / 8
         \<and> wing_MAC w = (4 * wing_area w / (3 * 1200)) * ((1 + 0.6 + 0.6\<^sup>2) / (1 + 0.6)\<^sup>2)
         \<and> MAC = S / 1200
         \<and> wing_c_root w = 2 * wing_area w / (1200 * (1 + 0.6))
         \<and> C_root = 2 * S / (1200 * (1 + 0.6))
         \<and> (wing_MAC w = MAC \<longleftrightarrow> (0.6::real) = 1)
         \<and> ((0.6::real) = 1 \<longrightarrow> wing_MAC w = wing_c_root w \<and> MAC = C_root))"
    by (rule mac_formulas_agree_iff_rectangular [THEN conjunct1])
  moreover have "get_float None None None [Numeric 1200, Numeric 8, Numeric 0.6]
          = Inr (1200, [Numeric 8, Numeric 0.6])
      \<and> get_float None None None [Numeric 8, Numeric 0.6] = Inr (8, [Numeric 0.6])
      \<and> get_float None None None [Numeric 0.6] = Inr (0.6, [])
      \<and> (0::real) < 1200 \<and> (0::real) < 8 \<and> (0::real) < 0.6"
    by simp
  ultimately have "\<exists>w S MAC C_root C_tip.
           design_wing [Numeric 1200, Numeric 8, Numeric 0.6] = Inr (w, [])
         \<and> calc_wing_geometry 1200 8 0.6 = Inr (S, MAC, C_root, C_tip)
         \<and> wing_area w = 1200\<^sup>2 / 8
         \<and> S = 1200\<^sup>2 / 8
         \<and> wing_MAC w = (4 * wing_area w / (3 * 1200)) * ((1 + 0.6 + 0.6\<^sup>2) / (1 + 0.6)\<^sup>2)
         \<and> MAC = S / 1200
         \<and> wing_c_root w = 2 * wing_area w / (1200 * (1 + 0.6))
         \<and> C_root = 2 * S / (1200 * (1 + 0.6))
         \<and> (wing_MAC w = MAC \<longleftrightarrow> (0.6::real) = 1)
         \<and> ((0.6::real) = 1 \<longrightarrow> wing_MAC w = wing_c_root w \<and> MAC = C_root)"
    by (rule mp)
  then have tapered: "\<exists>w S MAC C_root C_tip.
      design_wing [Numeric 1200, Numeric 8, Numeric 0.6] = Inr (w, [])
    \<and> calc_wing_geometry 1200 8 0.6 = Inr (S, MAC, C_root, C_tip)
    \<and> wing_MAC w \<noteq> MAC"
    by fastforce
  have g64: "\<And>x rest. get_float_f64 None None None (Numeric x # rest) = Inr (round64 x, rest)"
    by simp
  have c1200: "round64 1200 = Fin 1200"
    by (simp add: round64_normal [of 10] round_half_even_def Let_def)
  have c9: "round64 9 = Fin 9"
    by (simp add: round64_normal [of 3] round_half_even_def Let_def)
  have c1: "round64 1 = Fin 1"
    by (simp add: round64_normal [of 0] round_half_even_def Let_def)
  have "get_float_f64 None None None [Numeric 1200, Numeric 9, Numeric 1]
          = Inr (Fin 1200, [Numeric 9, Numeric 1])
      \<and> get_float_f64 None None None [Numeric 9, Numeric 1] = Inr (Fin 9, [Numeric 1])
      \<and> get_float_f64 None None None [Numeric 1] = Inr (Fin 1, [])
      \<and> 2 powi (- 60) \<le> (1200::real) \<and> (1200::real) \<le> 2 ^ 60
      \<and> 2 powi (- 60) \<le> (9::real) \<and> (9::real) \<le> 2 ^ 60 \<longrightarrow>
      (\<exists>w sq ar m n c ct.
           design_wing_f64 [Numeric 1200, Numeric 9, Numeric 1] = Inr (w, [])
         \<and> calc_wing_geometry_f64 (Fin 1200) (Fin 9) (Fin 1) = Inr (Fin ar, Fin n, Fin c, ct)
         \<and> dpow2 (Fin 1200) = Inr sq \<and> ddiv sq (Fin 9) = Inr (Fin ar) \<and> 0 < ar
         \<and> wf_area w = Fin ar \<and> wf_MAC w = Fin m \<and> wf_c_root w = Fin c
         \<and> \<bar>m - ar / 1200\<bar> \<le> ar / 1200 / 10 ^ 15
         \<and> \<bar>m - n\<bar> \<le> n / 10 ^ 15
         \<and> \<bar>m - c\<bar> \<le> c / 10 ^ 15
         \<and> \<bar>n - c\<bar> \<le> c / 10 ^ 15)"
    by (rule mac_formulas_agree_iff_rectangular [THEN conjunct2])
  moreover have "get_float_f64 None None None [Numeric 1200, Numeric 9, Numeric 1]
          = Inr (Fin 1200, [Numeric 9, Numeric 1])
      \<and> get_float_f64 None None None [Numeric 9, Numeric 1] = Inr (Fin 9, [Numeric 1])
      \<and> get_float_f64 None None None [Numeric 1] = Inr (Fin 1, [])
      \<and> 2 powi (- 60) \<le> (1200::real) \<and> (1200::real) \<le> 2 ^ 60
      \<and> 2 powi (- 60) \<le> (9::real) \<and> (9::real) \<le> 2 ^ 60"
  proof (intro conjI)
    show "get_float_f64 None None None [Numeric 1200, Numeric 9, Numeric 1]
          = Inr (Fin 1200, [Numeric 9, Numeric 1])"
      by (simp only: g64 c1200)
    show "get_float_f64 None None None [Numeric 9, Numeric 1] = Inr (Fin 9, [Numeric 1])"
      by (simp only: g64 c9)
    show "get_float_f64 None None None [Numeric 1] = Inr (Fin 1, [])"
      by (simp only: g64 c1)
  qed (simp_all add: power_int_minus)
  ultimately have rounded: "\<exists>w sq ar m n c ct.
           design_wing_f64 [Numeric 1200, Numeric 9, Numeric 1] = Inr (w, [])
         \<and> calc_wing_geometry_f64 (Fin 1200) (Fin 9) (Fin 1) = Inr (Fin ar, Fin n, Fin c, ct)
         \<and> dpow2 (Fin 1200) = Inr sq \<and> ddiv sq (Fin 9) = Inr (Fin ar) \<and> 0 < ar
         \<and> wf_area w = Fin ar \<and> wf_MAC w = Fin m \<and> wf_c_root w = Fin c
         \<and> \<bar>m - ar / 1200\<bar> \<le> ar / 1200 / 10 ^ 15
         \<and> \<bar>m - n\<bar> \<le> n / 10 ^ 15
         \<and> \<bar>m - c\<bar> \<le> c / 10 ^ 15
         \<and> \<bar>n - c\<bar> \<le> c / 10 ^ 15"
    by (rule mp)
  from rect tapered rounded show ?thesis by (intro conjI)
qed

text \<open>
  Claim C2. For a positive span, aspect ratio and taper ratio, \<^verbatim>\<open>design_wing\<close> and
  \<^verbatim>\<open>calc_wing_geometry\<close> both return, with the area \<open>span\<^sup>2 / aspectRatio\<close>, the root
  chord \<open>2 * area / (span * (1 + taperRatio))\<close> and the tip chord
  \<open>taperRatio * rootChord\<close>. For span 1200, aspect ratio 8 and taper ratio 0.6 these are
  180000, 187.5 and 112.5.
\<close>

theorem wing_geometry_formulas:
  assumes "get_float None None None inp0 = Inr (b, inp1)"
    and "get_float None None None inp1 = Inr (AR, inp2)"
    and "get_float None None None inp2 = Inr (taper, inp3)"
    and "0 < b" and "0 < AR" and "0 < taper"
  shows "(\<exists>w. design_wing inp0 = Inr (w, inp3)
             \<and> wing_area w = b\<^sup>2 / AR
             \<and> wing_c_root w = 2 * wing_area w / (b * (1 + taper))
             \<and> wing_c_tip w = taper * wing_c_root w)
       \<and> (\<exists>S MAC C_root C_tip.
             calc_wing_geometry b AR taper = Inr (S, MAC, C_root, C_tip)
             \<and> S = b\<^sup>2 / AR
             \<and> C_root = 2 * S / (b * (1 + taper))
             \<and> C_tip = taper * C_root)
       \<and> (\<exists>MAC. calc_wing_geometry 1200 8 0.6 = Inr (180000, MAC, 187.5, 112.5))
       \<and> (\<exists>w rest. design_wing [Numeric 1200, Numeric 8, Numeric 0.6] = Inr (w, rest)
             \<and> wing_area w = 180000 \<and> wing_c_root w = 187.5 \<and> wing_c_tip w = 112.5)"
proof -
  from assms(4,5,6) have nz: "b \<noteq> 0" "AR \<noteq> 0" "taper \<noteq> - 1" by simp_all
  have g: "\<And>x rest. get_float None None None (Numeric x # rest) = Inr (x, rest)"
    by simp
  have "\<exists>w. design_wing inp0 = Inr (w, inp3)
             \<and> wing_area w = b\<^sup>2 / AR
             \<and> wing_c_root w = 2 * wing_area w / (b * (1 + taper))
             \<and> wing_c_tip w = taper * wing_c_root w"
    by (simp add: design_wing_value [OF assms(1,2,3) nz])
  moreover have "\<exists>S MAC C_root C_tip.
             calc_wing_geometry b AR taper = Inr (S, MAC, C_root, C_tip)
             \<and> S = b\<^sup>2 / AR
             \<and> C_root = 2 * S / (b * (1 + taper))
             \<and> C_tip = taper * C_root"
    by (simp add: calc_wing_geometry_value [OF nz])
  moreover have "\<exists>MAC. calc_wing_geometry 1200 8 0.6 = Inr (180000, MAC, 187.5, 112.5)"
    by (simp add: calc_wing_geometry_value)
  moreover have "\<exists>w rest. design_wing [Numeric 1200, Numeric 8, Numeric 0.6] = Inr (w, rest)
             \<and> wing_area w = 180000 \<and> wing_c_root w = 187.5 \<and> wing_c_tip w = 112.5"
    by (simp add: design_wing_value [OF g g g])
  ultimately show ?thesis by blast
qed

theorem wing_geometry_formulas_witness:
  "\<exists>w. design_wing [Other, Numeric 1000, Blank, Numeric 5, Numeric 1] = Inr (w, [])
       \<and> wing_area w = 200000 \<and> wing_c_root w = 200 \<and> wing_c_tip w = 200"
proof -
  have r1: "get_float None None None [Other, Numeric 1000, Blank, Numeric 5, Numeric 1]
              = Inr (1000, [Blank, Numeric 5, Numeric 1])" by simp
  have r2: "get_float None None None [Blank, Numeric 5, Numeric 1] = Inr (5, [Numeric 1])"
    by simp
  have r3: "get_float None None None [Numeric 1] = Inr (1, [])" by simp
  show ?thesis
    using wing_geometry_formulas [OF r1 r2 r3] by fastforce
qed





subsection \<open>Aerodynamics\<close>

text \<open>
  Claim C8. For positive density, velocity, wing area, lift coefficient, zero-lift drag
  coefficient and aspect ratio, and an Oswald efficiency in \<open>(0, 1]\<close>,
  \<^verbatim>\<open>calc_aerodynamics\<close> returns the lift \<open>0.5 * rho * V\<^sup>2 * S * CL\<close>, the drag
  \<open>0.5 * rho * V\<^sup>2 * S * CD\<close> and the drag coefficient
  \<open>CD = CD0 + CL\<^sup>2 / (pi * e * AR)\<close>, in the order lift, drag, drag coefficient.
\<close>

theorem calc_aerodynamics_formulas:
  assumes "0 < rho" and "0 < V" and "0 < S" and "0 < CL" and "0 < CD0" and "0 < AR"
    and "0 < e" and "e \<le> 1"
  shows "calc_aerodynamics rho V S CL CD0 AR e =
           Inr (0.5 * rho * V\<^sup>2 * S * CL,
                0.5 * rho * V\<^sup>2 * S * (CD0 + CL\<^sup>2 / (pi * e * AR)),
                CD0 + CL\<^sup>2 / (pi * e * AR))"
proof -
  have "0 < pi * e * AR"
    using assms(6,7) pi_gt_zero by simp
  then have "pi * e * AR \<noteq> 0" by linarith
  then have "py_div (CL\<^sup>2) (pi * e * AR) = Inr (CL\<^sup>2 / (pi * e * AR))"
    by (rule py_div_nonzero)
  then show ?thesis
    by (simp only: calc_aerodynamics_def bindE_Inr Let_def)
qed

theorem calc_aerodynamics_formulas_witness:
  "calc_aerodynamics 1.225 10 0.18 1.4 0.02 8 0.8 =
     Inr (0.5 * 1.225 * 10\<^sup>2 * 0.18 * 1.4,
          0.5 * 1.225 * 10\<^sup>2 * 0.18 * (0.02 + 1.4\<^sup>2 / (pi * 0.8 * 8)),
          0.02 + 1.4\<^sup>2 / (pi * 0.8 * 8))"
  using calc_aerodynamics_formulas [of "1.225" 10 "0.18" "1.4" "0.02" 8 "0.8"] by simp

subsection \<open>Static margin\<close>

text \<open>
  Claim C6. \<^verbatim>\<open>cg_and_static_margin\<close> returns the static margin as the difference of
  the two percentages, neutral point minus centre of gravity, whatever the mean
  aerodynamic chord is; for a neutral point of 30 (typed, or taken as the default on an
  empty line) and a centre of gravity of 25 it is 5.
\<close>

theorem static_margin_percent_of_mac:
  "(get_float (Some 25.0) (Some 40.0) (Some 30.0) inp0 = Inr (NP, inp1)
      \<and> get_float (Some 0.0) (Some 100.0) None inp1 = Inr (CG, inp2) \<longrightarrow>
      (\<exists>r. cg_and_static_margin MAC_mm inp0 = Inr (r, inp2)
          \<and> NP_percent r = NP \<and> CG_percent r = CG \<and> SM_percent r = NP - CG))
 \<and> (\<exists>r. cg_and_static_margin MAC_mm (Numeric 30 # Numeric 25 # rest) = Inr (r, rest)
        \<and> NP_percent r = 30 \<and> CG_percent r = 25 \<and> SM_percent r = 5)
 \<and> (\<exists>r. cg_and_static_margin MAC_mm (Blank # Numeric 25 # rest) = Inr (r, rest)
        \<and> NP_percent r = 30 \<and> CG_percent r = 25 \<and> SM_percent r = 5)"
  by (simp add: cg_and_static_margin_def bindE_def)

theorem static_margin_percent_of_mac_witness:
  "\<exists>r. cg_and_static_margin 150 [Other, Numeric 35, Numeric 150, Numeric 20] = Inr (r, [])
       \<and> NP_percent r = 35 \<and> CG_percent r = 20 \<and> SM_percent r = 15"
proof -
  have "get_float (Some 25.0) (Some 40.0) (Some 30.0) [Other, Numeric 35, Numeric 150, Numeric 20]
          = Inr (35, [Numeric 150, Numeric 20])
      \<and> get_float (Some 0.0) (Some 100.0) None [Numeric 150, Numeric 20] = Inr (20, []) \<longrightarrow>
      (\<exists>r. cg_and_static_margin 150 [Other, Numeric 35, Numeric 150, Numeric 20] = Inr (r, [])
          \<and> NP_percent r = 35 \<and> CG_percent r = 20 \<and> SM_percent r = 35 - 20)"
    by (rule static_margin_percent_of_mac [THEN conjunct1])
  then show ?thesis by simp
qed

subsection \<open>Stall speed\<close>

lemma stall_speed_value:
  assumes "0 \<le> W" and "0 < rho" and "0 < S"
  shows "stall_speed W rho S CLmax = Inr (Finite (sqrt (2 * W / (rho * S))))"
proof -
  have d: "rho * S \<noteq> 0" using assms(2,3) by simp
  have "0 \<le> 2 * W / (rho * S)" using assms by simp
  then have "np_sqrt (2 * W / (rho * S)) = Finite (sqrt (2 * W / (rho * S)))"
    by (simp add: np_sqrt_def)
  then show ?thesis
    by (simp only: stall_speed_def py_div_nonzero [OF d] bindE_Inr)
qed

lemma stall_speed_increasing_in_weight:
  assumes "0 < W" and "W < W'" and "0 < rho" and "0 < S"
  shows "\<exists>v v'. stall_speed W rho S CLmax = Inr (Finite v)
               \<and> stall_speed W' rho S CLmax = Inr (Finite v') \<and> v < v'"
proof -
  have "0 < rho * S" using assms(3,4) by simp
  then have "2 * W / (rho * S) < 2 * W' / (rho * S)"
    using assms(2) by (simp add: divide_strict_right_mono)
  then have "sqrt (2 * W / (rho * S)) < sqrt (2 * W' / (rho * S))"
    by (simp only: real_sqrt_less_iff)
  then show ?thesis
    using assms by (simp add: stall_speed_value)
qed

lemma stall_speed_decreasing_in_area:
  assumes "0 < W" and "0 < rho" and "0 < S" and "S < S'"
  shows "\<exists>v v'. stall_speed W rho S CLmax = Inr (Finite v)
               \<and> stall_speed W rho S' CLmax = Inr (Finite v') \<and> v' < v"
proof -
  have "rho * S < rho * S'" using assms(2,4) by simp
  moreover have "0 < rho * S" using assms(2,3) by simp
  ultimately have "2 * W / (rho * S') < 2 * W / (rho * S)"
    using assms(1) by (simp add: divide_strict_left_mono)
  then have "sqrt (2 * W / (rho * S')) < sqrt (2 * W / (rho * S))"
    by (simp only: real_sqrt_less_iff)
  then show ?thesis
    using assms by (simp add: stall_speed_value)
qed

lemma stall_speed_decreasing_in_density:
  assumes "0 < W" and "0 < rho" and "rho < rho'" and "0 < S"
  shows "\<exists>v v'. stall_speed W rho S CLmax = Inr (Finite v)
               \<and> stall_speed W rho' S CLmax = Inr (Finite v') \<and> v' < v"
proof -
  have "rho * S < rho' * S" using assms(3,4) by simp
  moreover have "0 < rho * S" using assms(2,4) by simp
  ultimately have "2 * W / (rho' * S) < 2 * W / (rho * S)"
    using assms(1) by (simp add: divide_strict_left_mono)
  then have "sqrt (2 * W / (rho' * S)) < sqrt (2 * W / (rho * S))"
    by (simp only: real_sqrt_less_iff)
  then show ?thesis
    using assms by (simp add: stall_speed_value)
qed

text \<open>
  Claim C3. The claim asks that \<^verbatim>\<open>stall_speed\<close> be strictly increasing in the weight
  and strictly decreasing in the wing area, the density and the maximum lift
  coefficient. The three lemmas above give the first three. The fourth fails:
  \<^verbatim>\<open>stall_speed\<close> takes \<^verbatim>\<open>CLmax\<close> and never uses it, so two calls that differ
  only in \<^verbatim>\<open>CLmax\<close> return the same speed, here at a weight of 19.62 N, sea-level
  density and a wing of 0.18 square metres.
\<close>

theorem stall_speed_ignores_CLmax:
  "stall_speed W rho S CLmax = stall_speed W rho S CLmax'
 \<and> stall_speed 19.62 1.225 0.18 1.0 = Inr (Finite (sqrt (2 * 19.62 / (1.225 * 0.18))))
 \<and> stall_speed 19.62 1.225 0.18 1.4 = Inr (Finite (sqrt (2 * 19.62 / (1.225 * 0.18))))"
  by (simp add: stall_speed_def py_div_def bindE_def np_sqrt_def)

subsection \<open>Tail geometry\<close>

text \<open>
  Claim C7 as stated, refuted for the batch calculator. The claim gives every tail the
  span \<open>sqrt (aspectRatio * tailArea)\<close> and an area that is a chosen fraction of the wing
  area. For a wingspan of 1200 mm and an aspect ratio of 8 the batch calculator returns
  a horizontal tail of area 0.0342 and span 0.48, which is not \<open>sqrt (8 * 0.0342)\<close>, and
  the area is not the fraction 0.2 of the wing area.
\<close>

theorem batch_tail_span_counterexample:
  "\<exists>r. test_main \<lparr>cfg_wingspan = 1200, cfg_aspect_ratio = 8, cfg_weight = 2, cfg_cl_max = 1.4,
                    cfg_taper_ratio = 1, cfg_tail_taper_H = 1, cfg_tail_taper_V = 1\<rparr> = Inr r
       \<and> m_S r = 0.18 \<and> m_SH r = 0.0342 \<and> m_b_H r = 0.48
       \<and> m_b_H r \<noteq> sqrt (8 * m_SH r)
       \<and> m_SH r \<noteq> 0.2 * m_S r"
proof -
  define data where "data = \<lparr>cfg_wingspan = 1200, cfg_aspect_ratio = 8, cfg_weight = 2,
    cfg_cl_max = 1.4, cfg_taper_ratio = 1, cfg_tail_taper_H = 1, cfg_tail_taper_V = (1::real)\<rparr>"
  have "\<exists>r. test_main data = Inr r
           \<and> m_b r = cfg_wingspan data / 1000
           \<and> calc_wing_geometry (m_b r) (cfg_aspect_ratio data) (cfg_taper_ratio data)
               = Inr (m_S r, m_MAC r, m_C_root r, m_C_tip r)
           \<and> tail_areas (m_S r) = (m_SH r, m_SV r)
           \<and> fuselage_dimensions (m_b r) = (m_Lf r, m_Hf r, m_Wf r)
           \<and> m_b_H r = 0.4 * m_b r
           \<and> m_b_V r = m_Hf r
           \<and> calc_tail_geometry (m_SH r) (m_b_H r) (cfg_tail_taper_H data)
               = Inr (m_C_root_H r, m_C_tip_H r)
           \<and> calc_tail_geometry (m_SV r) (m_b_V r) (cfg_tail_taper_V data)
               = Inr (m_C_root_V r, m_C_tip_V r)"
    by (rule test_main_value) (simp_all add: data_def)
  then obtain r where r: "test_main data = Inr r"
    and b: "m_b r = cfg_wingspan data / 1000"
    and w: "calc_wing_geometry (m_b r) (cfg_aspect_ratio data) (cfg_taper_ratio data)
               = Inr (m_S r, m_MAC r, m_C_root r, m_C_tip r)"
    and ta: "tail_areas (m_S r) = (m_SH r, m_SV r)"
    and bH: "m_b_H r = 0.4 * m_b r"
    by blast
  have b': "m_b r = 1.2" using b by (simp add: data_def)
  have "calc_wing_geometry 1.2 8 1 = Inr (m_S r, m_MAC r, m_C_root r, m_C_tip r)"
    using w by (simp add: b' data_def)
  then have S: "m_S r = 0.18"
    by (simp add: calc_wing_geometry_value power2_eq_square)
  have SH: "m_SH r = 0.0342"
    using ta by (simp add: tail_areas_def S)
  have H: "m_b_H r = 0.48"
    using bH by (simp add: b')
  have ne_sqrt: "sqrt x \<noteq> y" if "0 \<le> x" and "y\<^sup>2 \<noteq> x" for x y :: real
    using that real_sqrt_pow2 by blast
  have "sqrt (8 * 0.0342) \<noteq> 0.48"
    by (rule ne_sqrt) (simp_all add: power2_eq_square)
  then have ne: "m_b_H r \<noteq> sqrt (8 * m_SH r)"
    by (simp only: SH H)
  have fr: "m_SH r \<noteq> 0.2 * m_S r"
    by (simp add: SH S)
  from r S SH H ne fr show ?thesis
    unfolding data_def by blast
qed

text \<open>
  Claim C7, amended. In the designer, for every positive wing area and every input that
  \<^verbatim>\<open>get_float\<close> accepted, each stabilizer has the area \<open>percent / 100 * wingArea\<close>, the
  span \<open>sqrt (aspectRatio * tailArea)\<close>, the root chord
  \<open>2 * tailArea / (span * (1 + taper))\<close> and the tip chord \<open>taper * rootChord\<close>. In the
  batch calculator, for a positive wingspan, aspect ratio and taper ratios, there is no
  tail aspect ratio: the tail areas are 0.19 and 0.095 of the wing area, the horizontal
  tail span is 0.4 of the wingspan, the vertical tail span is the fuselage height
  \<open>0.125 * (0.675 * wingspan)\<close>, and the chords follow the same two trapezoid formulas.
\<close>

theorem tail_geometry_by_variant:
  "(get_float (Some 18.0) (Some 20.0) None j0 = Inr (p_hs, j1)
      \<and> get_float (Some 1.0) (Some 20.0) None j1 = Inr (AR_hs, j2)
      \<and> get_float (Some 0.05) (Some 1.5) None j2 = Inr (t_hs, j3)
      \<and> get_float (Some 25.0) (Some 50.0) None j3 = Inr (p_el, j4)
      \<and> get_float (Some 9.0) (Some 10.0) None j4 = Inr (p_vs, j5)
      \<and> get_float (Some 1.0) (Some 10.0) None j5 = Inr (AR_vs, j6)
      \<and> get_float (Some 0.05) (Some 1.5) None j6 = Inr (t_vs, j7)
      \<and> get_float (Some 25.0) (Some 50.0) None j7 = Inr (p_ru, j8)
      \<and> 0 < warea \<longrightarrow>
      (\<exists>e. design_empennage warea j0 = Inr (e, j8)
          \<and> hs_S (emp_HS e) = (p_hs / 100) * warea
          \<and> hs_span (emp_HS e) = sqrt (AR_hs * hs_S (emp_HS e))
          \<and> hs_root (emp_HS e) = 2 * hs_S (emp_HS e) / (hs_span (emp_HS e) * (1 + t_hs))
          \<and> hs_tip (emp_HS e) = t_hs * hs_root (emp_HS e)
          \<and> vs_S (emp_VS e) = (p_vs / 100) * warea
          \<and> vs_span (emp_VS e) = sqrt (AR_vs * vs_S (emp_VS e))
          \<and> vs_root (emp_VS e) = 2 * vs_S (emp_VS e) / (vs_span (emp_VS e) * (1 + t_vs))
          \<and> vs_tip (emp_VS e) = t_vs * vs_root (emp_VS e)))
 \<and> (0 < cfg_wingspan data \<and> 0 < cfg_aspect_ratio data \<and> 0 < cfg_taper_ratio data
      \<and> 0 < cfg_tail_taper_H data \<and> 0 < cfg_tail_taper_V data \<longrightarrow>
      (\<exists>r. test_main data = Inr r
          \<and> m_b r = cfg_wingspan data / 1000
          \<and> m_S r = (m_b r)\<^sup>2 / cfg_aspect_ratio data
          \<and> m_SH r = 0.19 * m_S r
          \<and> m_b_H r = 0.4 * m_b r
          \<and> m_C_root_H r = 2 * m_SH r / (m_b_H r * (1 + cfg_tail_taper_H data))
          \<and> m_C_tip_H r = cfg_tail_taper_H data * m_C_root_H r
          \<and> m_SV r = 0.095 * m_S r
          \<and> m_b_V r = 0.125 * (0.675 * m_b r)
          \<and> m_C_root_V r = 2 * m_SV r / (m_b_V r * (1 + cfg_tail_taper_V data))
          \<and> m_C_tip_V r = cfg_tail_taper_V data * m_C_root_V r))"
proof -
  have emp: "\<exists>e. design_empennage warea j0 = Inr (e, j8)
          \<and> hs_S (emp_HS e) = (p_hs / 100) * warea
          \<and> hs_span (emp_HS e) = sqrt (AR_hs * hs_S (emp_HS e))
          \<and> hs_root (emp_HS e) = 2 * hs_S (emp_HS e) / (hs_span (emp_HS e) * (1 + t_hs))
          \<and> hs_tip (emp_HS e) = t_hs * hs_root (emp_HS e)
          \<and> vs_S (emp_VS e) = (p_vs / 100) * warea
          \<and> vs_span (emp_VS e) = sqrt (AR_vs * vs_S (emp_VS e))
          \<and> vs_root (emp_VS e) = 2 * vs_S (emp_VS e) / (vs_span (emp_VS e) * (1 + t_vs))
          \<and> vs_tip (emp_VS e) = t_vs * vs_root (emp_VS e)"
    if r: "get_float (Some 18.0) (Some 20.0) None j0 = Inr (p_hs, j1)"
      "get_float (Some 1.0) (Some 20.0) None j1 = Inr (AR_hs, j2)"
      "get_float (Some 0.05) (Some 1.5) None j2 = Inr (t_hs, j3)"
      "get_float (Some 25.0) (Some 50.0) None j3 = Inr (p_el, j4)"
      "get_float (Some 9.0) (Some 10.0) None j4 = Inr (p_vs, j5)"
      "get_float (Some 1.0) (Some 10.0) None j5 = Inr (AR_vs, j6)"
      "get_float (Some 0.05) (Some 1.5) None j6 = Inr (t_vs, j7)"
      "get_float (Some 25.0) (Some 50.0) None j7 = Inr (p_ru, j8)"
      and pos: "0 < warea"
    apply (simp only: design_empennage_value [OF r pos])
    apply (intro exI conjI)
            apply (rule refl)
           apply (simp_all only: empennage.select_convs hs.select_convs vs.select_convs)
    done
  have batch: "\<exists>r. test_main data = Inr r
          \<and> m_b r = cfg_wingspan data / 1000
          \<and> m_S r = (m_b r)\<^sup>2 / cfg_aspect_ratio data
          \<and> m_SH r = 0.19 * m_S r
          \<and> m_b_H r = 0.4 * m_b r
          \<and> m_C_root_H r = 2 * m_SH r / (m_b_H r * (1 + cfg_tail_taper_H data))
          \<and> m_C_tip_H r = cfg_tail_taper_H data * m_C_root_H r
          \<and> m_SV r = 0.095 * m_S r
          \<and> m_b_V r = 0.125 * (0.675 * m_b r)
          \<and> m_C_root_V r = 2 * m_SV r / (m_b_V r * (1 + cfg_tail_taper_V data))
          \<and> m_C_tip_V r = cfg_tail_taper_V data * m_C_root_V r"
    if pos: "0 < cfg_wingspan data" "0 < cfg_aspect_ratio data" "0 < cfg_taper_ratio data"
      "0 < cfg_tail_taper_H data" "0 < cfg_tail_taper_V data"
  proof -
    from pos have nz: "cfg_wingspan data \<noteq> 0" "cfg_aspect_ratio data \<noteq> 0"
      "cfg_taper_ratio data \<noteq> - 1" "cfg_tail_taper_H data \<noteq> - 1"
      "cfg_tail_taper_V data \<noteq> - 1"
      by simp_all
    from test_main_value [OF nz] obtain r where r: "test_main data = Inr r"
      and b: "m_b r = cfg_wingspan data / 1000"
      and w: "calc_wing_geometry (m_b r) (cfg_aspect_ratio data) (cfg_taper_ratio data)
               = Inr (m_S r, m_MAC r, m_C_root r, m_C_tip r)"
      and ta: "tail_areas (m_S r) = (m_SH r, m_SV r)"
      and fu: "fuselage_dimensions (m_b r) = (m_Lf r, m_Hf r, m_Wf r)"
      and bH: "m_b_H r = 0.4 * m_b r"
      and bV: "m_b_V r = m_Hf r"
      and cH: "calc_tail_geometry (m_SH r) (m_b_H r) (cfg_tail_taper_H data)
               = Inr (m_C_root_H r, m_C_tip_H r)"
      and cV: "calc_tail_geometry (m_SV r) (m_b_V r) (cfg_tail_taper_V data)
               = Inr (m_C_root_V r, m_C_tip_V r)"
      by blast
    have b0: "m_b r \<noteq> 0" using b nz(1) by simp
    have S: "m_S r = (m_b r)\<^sup>2 / cfg_aspect_ratio data"
      using w by (simp add: calc_wing_geometry_value [OF b0 nz(2,3)])
    have SH: "m_SH r = 0.19 * m_S r" and SV: "m_SV r = 0.095 * m_S r"
      using ta by (simp_all add: tail_areas_def)
    have Hf: "m_Hf r = 0.125 * (0.675 * m_b r)"
      using fu by (simp add: fuselage_dimensions_def)
    have bV': "m_b_V r = 0.125 * (0.675 * m_b r)"
      by (simp only: bV Hf)
    have H0: "m_b_H r \<noteq> 0" using bH b0 by simp
    have V0: "m_b_V r \<noteq> 0" using bV' b0 by simp
    have chords: "c_root = 2 * a / (s * (1 + t)) \<and> c_tip = t * c_root"
      if "calc_tail_geometry a s t = Inr (c_root, c_tip)" and "s \<noteq> 0" and "t \<noteq> - 1"
      for a s t c_root c_tip
    proof -
      have "Inr (2 * a / (s * (1 + t)), t * (2 * a / (s * (1 + t))))
                        = (Inr (c_root, c_tip) :: py_error + real \<times> real)"
        using that(1) by (simp only: calc_tail_geometry_value [OF that(2,3)])
      then have "2 * a / (s * (1 + t)) = c_root" and "t * (2 * a / (s * (1 + t))) = c_tip"
        by (simp_all only: sum.inject prod.inject) blast+
      then show ?thesis by blast
    qed
    from chords [OF cH H0 nz(4)]
    have rH: "m_C_root_H r = 2 * m_SH r / (m_b_H r * (1 + cfg_tail_taper_H data))"
      and tH: "m_C_tip_H r = cfg_tail_taper_H data * m_C_root_H r"
      by blast+
    from chords [OF cV V0 nz(5)]
    have rV: "m_C_root_V r = 2 * m_SV r / (m_b_V r * (1 + cfg_tail_taper_V data))"
      and tV: "m_C_tip_V r = cfg_tail_taper_V data * m_C_root_V r"
      by blast+
    from r b S SH bH rH tH SV bV' rV tV show ?thesis by blast
  qed
  show ?thesis
    apply (intro conjI impI)
     apply (elim conjE)
     apply (erule (8) emp)
    apply (elim conjE)
    apply (erule (4) batch)
    done
qed


theorem tail_geometry_by_variant_witness:
  "(\<exists>e. design_empennage 180000
             [Numeric 20, Numeric 2.5, Numeric 0.5, Numeric 30,
              Numeric 10, Numeric 5, Numeric 0.5, Numeric 30] = Inr (e, [])
        \<and> hs_S (emp_HS e) = 36000
        \<and> hs_span (emp_HS e) = sqrt 90000
        \<and> hs_root (emp_HS e) = 2 * 36000 / (sqrt 90000 * 1.5)
        \<and> vs_S (emp_VS e) = 18000
        \<and> vs_span (emp_VS e) = sqrt 90000)
 \<and> (\<exists>r. test_main \<lparr>cfg_wingspan = 1200, cfg_aspect_ratio = 8, cfg_weight = 2,
                     cfg_cl_max = 1.4, cfg_taper_ratio = 0.6, cfg_tail_taper_H = 0.5,
                     cfg_tail_taper_V = 0.5\<rparr> = Inr r
        \<and> m_S r = 0.18 \<and> m_SH r = 0.0342 \<and> m_b_H r = 0.48
        \<and> m_C_root_H r = 0.095 \<and> m_C_tip_H r = 0.0475
        \<and> m_SV r = 0.0171 \<and> m_b_V r = 0.10125)"
proof -
  have "get_float (Some 18.0) (Some 20.0) None
          [Numeric 20, Numeric 2.5, Numeric 0.5, Numeric 30,
           Numeric 10, Numeric 5, Numeric 0.5, Numeric 30]
          = Inr (20, [Numeric 2.5, Numeric 0.5, Numeric 30,
                      Numeric 10, Numeric 5, Numeric 0.5, Numeric 30])
      \<and> get_float (Some 1.0) (Some 20.0) None
          [Numeric 2.5, Numeric 0.5, Numeric 30, Numeric 10, Numeric 5, Numeric 0.5, Numeric 30]
          = Inr (2.5, [Numeric 0.5, Numeric 30, Numeric 10, Numeric 5, Numeric 0.5, Numeric 30])
      \<and> get_float (Some 0.05) (Some 1.5) None
          [Numeric 0.5, Numeric 30, Numeric 10, Numeric 5, Numeric 0.5, Numeric 30]
          = Inr (0.5, [Numeric 30, Numeric 10, Numeric 5, Numeric 0.5, Numeric 30])
      \<and> get_float (Some 25.0) (Some 50.0) None
          [Numeric 30, Numeric 10, Numeric 5, Numeric 0.5, Numeric 30]
          = Inr (30, [Numeric 10, Numeric 5, Numeric 0.5, Numeric 30])
      \<and> get_float (Some 9.0) (Some 10.0) None [Numeric 10, Numeric 5, Numeric 0.5, Numeric 30]
          = Inr (10, [Numeric 5, Numeric 0.5, Numeric 30])
      \<and> get_float (Some 1.0) (Some 10.0) None [Numeric 5, Numeric 0.5, Numeric 30]
          = Inr (5, [Numeric 0.5, Numeric 30])
      \<and> get_float (Some 0.05) (Some 1.5) None [Numeric 0.5, Numeric 30]
          = Inr (0.5, [Numeric 30])
      \<and> get_float (Some 25.0) (Some 50.0) None [Numeric 30] = Inr (30, [])
      \<and> (0::real) < 180000 \<longrightarrow>
      (\<exists>e. design_empennage 180000
               [Numeric 20, Numeric 2.5, Numeric 0.5, Numeric 30,
                Numeric 10, Numeric 5, Numeric 0.5, Numeric 30] = Inr (e, [])
          \<and> hs_S (emp_HS e) = (20 / 100) * 180000
          \<and> hs_span (emp_HS e) = sqrt (2.5 * hs_S (emp_HS e))
          \<and> hs_root (emp_HS e) = 2 * hs_S (emp_HS e) / (hs_span (emp_HS e) * (1 + 0.5))
          \<and> hs_tip (emp_HS e) = 0.5 * hs_root (emp_HS e)
          \<and> vs_S (emp_VS e) = (10 / 100) * 180000
          \<and> vs_span (emp_VS e) = sqrt (5 * vs_S (emp_VS e))
          \<and> vs_root (emp_VS e) = 2 * vs_S (emp_VS e) / (vs_span (emp_VS e) * (1 + 0.5))
          \<and> vs_tip (emp_VS e) = 0.5 * vs_root (emp_VS e))"
    by (rule tail_geometry_by_variant [THEN conjunct1])
  then have emp: "\<exists>e. design_empennage 180000
             [Numeric 20, Numeric 2.5, Numeric 0.5, Numeric 30,
              Numeric 10, Numeric 5, Numeric 0.5, Numeric 30] = Inr (e, [])
        \<and> hs_S (emp_HS e) = 36000
        \<and> hs_span (emp_HS e) = sqrt 90000
        \<and> hs_root (emp_HS e) = 2 * 36000 / (sqrt 90000 * 1.5)
        \<and> vs_S (emp_VS e) = 18000
        \<and> vs_span (emp_VS e) = sqrt 90000"
    by auto
  define data where "data = \<lparr>cfg_wingspan = 1200, cfg_aspect_ratio = 8, cfg_weight = 2,
                     cfg_cl_max = 1.4, cfg_taper_ratio = 0.6, cfg_tail_taper_H = 0.5,
                     cfg_tail_taper_V = (0.5::real)\<rparr>"
  have "0 < cfg_wingspan data \<and> 0 < cfg_aspect_ratio data \<and> 0 < cfg_taper_ratio data
      \<and> 0 < cfg_tail_taper_H data \<and> 0 < cfg_tail_taper_V data \<longrightarrow>
      (\<exists>r. test_main data = Inr r
          \<and> m_b r = cfg_wingspan data / 1000
          \<and> m_S r = (m_b r)\<^sup>2 / cfg_aspect_ratio data
          \<and> m_SH r = 0.19 * m_S r
          \<and> m_b_H r = 0.4 * m_b r
          \<and> m_C_root_H r = 2 * m_SH r / (m_b_H r * (1 + cfg_tail_taper_H data))
          \<and> m_C_tip_H r = cfg_tail_taper_H data * m_C_root_H r
          \<and> m_SV r = 0.095 * m_S r
          \<and> m_b_V r = 0.125 * (0.675 * m_b r)
          \<and> m_C_root_V r = 2 * m_SV r / (m_b_V r * (1 + cfg_tail_taper_V data))
          \<and> m_C_tip_V r = cfg_tail_taper_V data * m_C_root_V r)"
    by (rule tail_geometry_by_variant [THEN conjunct2])
  then obtain r where r: "test_main data = Inr r"
    and b: "m_b r = cfg_wingspan data / 1000"
    and S: "m_S r = (m_b r)\<^sup>2 / cfg_aspect_ratio data"
    and SH: "m_SH r = 0.19 * m_S r"
    and bH: "m_b_H r = 0.4 * m_b r"
    and rH: "m_C_root_H r = 2 * m_SH r / (m_b_H r * (1 + cfg_tail_taper_H data))"
    and tH: "m_C_tip_H r = cfg_tail_taper_H data * m_C_root_H r"
    and SV: "m_SV r = 0.095 * m_S r"
    and bV: "m_b_V r = 0.125 * (0.675 * m_b r)"
    by (auto simp: data_def)
  have b': "m_b r = 1.2" using b by (simp add: data_def)
  have S': "m_S r = 0.18" using S by (simp add: b' data_def power2_eq_square)
  have SH': "m_SH r = 0.0342" using SH by (simp add: S')
  have bH': "m_b_H r = 0.48" using bH by (simp add: b')
  have rH': "m_C_root_H r = 0.095" using rH by (simp add: SH' bH' data_def)
  have tH': "m_C_tip_H r = 0.0475" using tH by (simp add: rH' data_def)
  have SV': "m_SV r = 0.0171" using SV by (simp add: S')
  have bV': "m_b_V r = 0.10125" using bV by (simp add: b')
  from r S' SH' bH' rH' tH' SV' bV' emp show ?thesis
    unfolding data_def by blast
qed

subsection \<open>Zero span, zero aspect ratio, zero wing area\<close>




subsection \<open>Configuration defaults\<close>

lemma fill_defaults_lookup:
  "fold (\<lambda>(key, val) data. if data key = None then data(key \<mapsto> val) else data) kvs data k
     = (case data k of Some v \<Rightarrow> Some v | None \<Rightarrow> map_of kvs k)"
proof (induction kvs arbitrary: data)
  case Nil
  then show ?case by (simp split: option.split)
next
  case (Cons kv kvs)
  obtain key val where kv: "kv = (key, val)" by (cases kv)
  show ?case
    by (simp add: kv Cons.IH split: option.split)
qed

lemma load_input_lookup:
  "load_input data k = (case data k of Some v \<Rightarrow> Some v | None \<Rightarrow> map_of DEFAULTS k)"
  by (simp only: load_input_def fill_defaults_lookup)

text \<open>
  Claim C9. Whatever dictionary \<^verbatim>\<open>load_input\<close> starts from, each of the eight keys of
  the defaults table is present in the result: with the value of the input where the
  input has the key, and with the documented default where it does not. The function has
  no failing branch.
\<close>

theorem load_input_fills_defaults:
  "load_input data ''weight''
     = Some (case data ''weight'' of Some v \<Rightarrow> v | None \<Rightarrow> JFloat 2.0)
 \<and> load_input data ''cl_max''
     = Some (case data ''cl_max'' of Some v \<Rightarrow> v | None \<Rightarrow> JFloat 1.4)
 \<and> load_input data ''taper_ratio''
     = Some (case data ''taper_ratio'' of Some v \<Rightarrow> v | None \<Rightarrow> JFloat 1.0)
 \<and> load_input data ''tail_taper_H''
     = Some (case data ''tail_taper_H'' of Some v \<Rightarrow> v | None \<Rightarrow> JFloat 1.0)
 \<and> load_input data ''tail_taper_V''
     = Some (case data ''tail_taper_V'' of Some v \<Rightarrow> v | None \<Rightarrow> JFloat 1.0)
 \<and> load_input data ''motor_kv''
     = Some (case data ''motor_kv'' of Some v \<Rightarrow> v | None \<Rightarrow> JInt 1200)
 \<and> load_input data ''battery_voltage''
     = Some (case data ''battery_voltage'' of Some v \<Rightarrow> v | None \<Rightarrow> JFloat 11.1)
 \<and> load_input data ''propeller''
     = Some (case data ''propeller'' of Some v \<Rightarrow> v | None \<Rightarrow> JStr ''9x4.5'')"
proof -
  have present: "load_input data k = Some (case data k of Some v \<Rightarrow> v | None \<Rightarrow> d)"
    if "map_of DEFAULTS k = Some d" for k d
    using that by (simp add: load_input_lookup split: option.split)
  have "load_input data ''weight''
          = Some (case data ''weight'' of Some v \<Rightarrow> v | None \<Rightarrow> JFloat 2.0)"
    by (rule present) (simp add: DEFAULTS_def)
  moreover have "load_input data ''cl_max''
          = Some (case data ''cl_max'' of Some v \<Rightarrow> v | None \<Rightarrow> JFloat 1.4)"
    by (rule present) (simp add: DEFAULTS_def)
  moreover have "load_input data ''taper_ratio''
          = Some (case data ''taper_ratio'' of Some v \<Rightarrow> v | None \<Rightarrow> JFloat 1.0)"
    by (rule present) (simp add: DEFAULTS_def)
  moreover have "load_input data ''tail_taper_H''
          = Some (case data ''tail_taper_H'' of Some v \<Rightarrow> v | None \<Rightarrow> JFloat 1.0)"
    by (rule present) (simp add: DEFAULTS_def)
  moreover have "load_input data ''tail_taper_V''
          = Some (case data ''tail_taper_V'' of Some v \<Rightarrow> v | None \<Rightarrow> JFloat 1.0)"
    by (rule present) (simp add: DEFAULTS_def)
  moreover have "load_input data ''motor_kv''
          = Some (case data ''motor_kv'' of Some v \<Rightarrow> v | None \<Rightarrow> JInt 1200)"
    by (rule present) (simp add: DEFAULTS_def)
  moreover have "load_input data ''battery_voltage''
          = Some (case data ''battery_voltage'' of Some v \<Rightarrow> v | None \<Rightarrow> JFloat 11.1)"
    by (rule present) (simp add: DEFAULTS_def)
  moreover have "load_input data ''propeller''
          = Some (case data ''propeller'' of Some v \<Rightarrow> v | None \<Rightarrow> JStr ''9x4.5'')"
    by (rule present) (simp add: DEFAULTS_def)
  ultimately show ?thesis by blast
qed

text \<open>
  Claim C10. Every key of the input keeps its value in the result of \<^verbatim>\<open>load_input\<close>,
  whether or not the defaults table has the key too.
\<close>

theorem load_input_keeps_supplied:
  "data k = Some v \<Longrightarrow> load_input data k = Some v"
  by (simp add: load_input_lookup)

theorem load_input_keeps_supplied_witness:
  "load_input [''wingspan'' \<mapsto> JInt 1200, ''weight'' \<mapsto> JFloat 3.5] ''weight''
     = Some (JFloat 3.5)
 \<and> load_input [''wingspan'' \<mapsto> JInt 1200, ''weight'' \<mapsto> JFloat 3.5] ''wingspan''
     = Some (JInt 1200)"
  using load_input_keeps_supplied
          [of "[''wingspan'' \<mapsto> JInt 1200, ''weight'' \<mapsto> JFloat 3.5]" "''weight''" "JFloat 3.5"]
        load_input_keeps_supplied
          [of "[''wingspan'' \<mapsto> JInt 1200, ''weight'' \<mapsto> JFloat 3.5]" "''wingspan''" "JInt 1200"]
  by simp

end
